theory Spec2Isabelle
  imports Complex_Main
begin

section \<open>Domain value types (Jig.hpp, Beluga.hpp, Rack.hpp, ProductionLine.hpp)\<close>

text \<open>
  The C++ \<open>int\<close> fields are modelled as unbounded integers; none of the properties below
  depends on 32-bit wrap-around. A vector is a list; \<open>v[i]\<close> with a checked index \<open>i\<close> is
  \<open>v ! nat i\<close>. The value \<open>-1\<close> in a trailer or hangar slot means "no jig".
\<close>

record jig_type =
  name :: string
  size_empty :: int
  size_loaded :: int

text \<open>\<open>JigType::operator==\<close> compares the names only.\<close>

definition jig_type_eq :: "jig_type \<Rightarrow> jig_type \<Rightarrow> bool" where
  "jig_type_eq a b = (name a = name b)"

text \<open>Field \<open>Jig::empty\<close> is called \<open>jig_empty\<close> here.\<close>

record jig =
  jig_type :: jig_type
  jig_empty :: bool

text \<open>The expression \<open>jig.empty ? jig.jig_type.size_empty : jig.jig_type.size_loaded\<close>.\<close>

definition jig_size :: "jig \<Rightarrow> int" where
  "jig_size j = (if jig_empty j then size_empty (jig_type j) else size_loaded (jig_type j))"

record beluga =
  current_jigs :: "int list"
  outgoing :: "jig_type list"

text \<open>Fields \<open>Rack::size\<close> and \<open>Rack::current_jigs\<close> are \<open>rack_size\<close> and \<open>rack_jigs\<close>.\<close>

record rack =
  rack_size :: int
  rack_jigs :: "int list"

record production_line =
  scheduled_jigs :: "int list"

text \<open>\<open>is_valid_index\<close> of Action.cpp.\<close>

definition is_valid_index :: "int \<Rightarrow> 'a list \<Rightarrow> bool" where
  "is_valid_index i vec = (0 \<le> i \<and> nat i < length vec)"

text \<open>
  \<open>Rack::get_free_space\<close> reads \<open>all_jigs[jig_id - 1]\<close> for every jig id of the rack. A read
  outside the vector is undefined behaviour in C++; the model returns \<open>None\<close> there.
\<close>

fun used_space_loop :: "jig list \<Rightarrow> int list \<Rightarrow> int \<Rightarrow> int option" where
  "used_space_loop all_jigs [] total_used_space = Some total_used_space"
| "used_space_loop all_jigs (jig_id # rest) total_used_space =
     (if is_valid_index (jig_id - 1) all_jigs
      then used_space_loop all_jigs rest
             (total_used_space + jig_size (all_jigs ! nat (jig_id - 1)))
      else None)"

definition get_free_space :: "rack \<Rightarrow> jig list \<Rightarrow> int option" where
  "get_free_space r all_jigs =
     (case used_space_loop all_jigs (rack_jigs r) 0 of
        None \<Rightarrow> None
      | Some total_used_space \<Rightarrow> Some (rack_size r - total_used_space))"

section \<open>ProblemState (ProblemState.hpp, ProblemState.cpp)\<close>

text \<open>
  The copy-on-write sharing of the vectors is invisible in the values: \<open>copy\<close> is the
  identity on the logical snapshot and \<open>ensure_all_unique\<close> changes nothing in it.
\<close>

record problem_state =
  jigs :: "jig list"
  belugas :: "beluga list"
  trailers_beluga :: "int list"
  trailers_factory :: "int list"
  racks :: "rack list"
  production_lines :: "production_line list"
  hangars :: "int list"
  belugas_unloaded :: int
  belugas_finished :: int
  production_lines_finished :: int
  total_lines :: int
  total_belugas :: int
  problem_solved :: bool

text \<open>The seven-argument constructor.\<close>

definition ProblemState ::
  "jig list \<Rightarrow> beluga list \<Rightarrow> int list \<Rightarrow> int list \<Rightarrow> rack list \<Rightarrow> production_line list
     \<Rightarrow> int list \<Rightarrow> problem_state" where
  "ProblemState js bs tb tf rs pls hs =
     \<lparr> jigs = js, belugas = bs, trailers_beluga = tb, trailers_factory = tf, racks = rs,
       production_lines = pls, hangars = hs, belugas_unloaded = 0, belugas_finished = 0,
       production_lines_finished = 0, total_lines = int (length pls),
       total_belugas = int (length bs), problem_solved = False \<rparr>"

text \<open>
  The setters take a \<open>size_t\<close> index and return without effect when it is not below the
  size; a negative \<open>int\<close> argument converts to a huge \<open>size_t\<close> and is ignored as well.
\<close>

definition set_jig :: "problem_state \<Rightarrow> int \<Rightarrow> jig \<Rightarrow> problem_state" where
  "set_jig s i v = (if is_valid_index i (jigs s) then s\<lparr>jigs := (jigs s)[nat i := v]\<rparr> else s)"

definition set_beluga :: "problem_state \<Rightarrow> int \<Rightarrow> beluga \<Rightarrow> problem_state" where
  "set_beluga s i v =
     (if is_valid_index i (belugas s) then s\<lparr>belugas := (belugas s)[nat i := v]\<rparr> else s)"

definition set_trailer_beluga :: "problem_state \<Rightarrow> int \<Rightarrow> int \<Rightarrow> problem_state" where
  "set_trailer_beluga s i v =
     (if is_valid_index i (trailers_beluga s)
      then s\<lparr>trailers_beluga := (trailers_beluga s)[nat i := v]\<rparr> else s)"

definition set_trailer_factory :: "problem_state \<Rightarrow> int \<Rightarrow> int \<Rightarrow> problem_state" where
  "set_trailer_factory s i v =
     (if is_valid_index i (trailers_factory s)
      then s\<lparr>trailers_factory := (trailers_factory s)[nat i := v]\<rparr> else s)"

definition set_rack :: "problem_state \<Rightarrow> int \<Rightarrow> rack \<Rightarrow> problem_state" where
  "set_rack s i v = (if is_valid_index i (racks s) then s\<lparr>racks := (racks s)[nat i := v]\<rparr> else s)"

definition set_production_line :: "problem_state \<Rightarrow> int \<Rightarrow> production_line \<Rightarrow> problem_state" where
  "set_production_line s i v =
     (if is_valid_index i (production_lines s)
      then s\<lparr>production_lines := (production_lines s)[nat i := v]\<rparr> else s)"

definition set_hangar :: "problem_state \<Rightarrow> int \<Rightarrow> int \<Rightarrow> problem_state" where
  "set_hangar s i v =
     (if is_valid_index i (hangars s) then s\<lparr>hangars := (hangars s)[nat i := v]\<rparr> else s)"

definition remove_production_line :: "problem_state \<Rightarrow> int \<Rightarrow> problem_state" where
  "remove_production_line s i =
     (if is_valid_index i (production_lines s)
      then s\<lparr>production_lines :=
               take (nat i) (production_lines s) @ drop (Suc (nat i)) (production_lines s)\<rparr>
      else s)"

definition is_terminal :: "problem_state \<Rightarrow> bool" where
  "is_terminal s = (belugas s = [] \<and> production_lines s = [])"

text \<open>
  \<open>ProblemState::beluga_complete\<close>: removes the beluga at index 0 when both of its
  sequences are empty. The result is the returned flag and the snapshot afterwards.
\<close>

definition beluga_complete :: "problem_state \<Rightarrow> bool \<times> problem_state" where
  "beluga_complete s =
     (if belugas s = [] then (False, s)
      else let b = belugas s ! 0 in
        if outgoing b \<noteq> [] \<or> current_jigs b \<noteq> [] then (False, s)
        else (True, s\<lparr>belugas_finished := belugas_finished s + 1, belugas := tl (belugas s)\<rparr>))"

section \<open>The eight actions (Action.cpp)\<close>

text \<open>
  An action returns its flag and the snapshot afterwards. The two stacking actions call
  \<open>get_free_space\<close> and inherit its undefined case as \<open>None\<close>.
\<close>

definition load_beluga :: "problem_state \<Rightarrow> int \<Rightarrow> int \<Rightarrow> bool \<times> problem_state" where
  "load_beluga s trailer_beluga none =
     (if \<not> is_valid_index trailer_beluga (trailers_beluga s) then (False, s)
      else let jig_id = trailers_beluga s ! nat trailer_beluga in
        if jig_id = -1 then (False, s)
        else if \<not> is_valid_index jig_id (jigs s) then (False, s)
        else if belugas s = [] then (False, s)
        else let b = belugas s ! 0 in
          if \<not> jig_empty (jigs s ! nat jig_id) \<or> outgoing b = [] \<or> current_jigs b \<noteq> []
          then (False, s)
          else if \<not> jig_type_eq (jig_type (jigs s ! nat jig_id)) (outgoing b ! 0)
          then (False, s)
          else if length (outgoing b) = 1 then
            let modifiedBeluga = b\<lparr>outgoing := tl (outgoing b)\<rparr>;
                s1 = set_beluga s 0 modifiedBeluga;
                s2 = set_trailer_beluga s1 trailer_beluga (-1)
            in (True, snd (beluga_complete s2))
          else
            let modifiedBeluga = b\<lparr>outgoing := tl (outgoing b)\<rparr>;
                s1 = set_beluga s 0 modifiedBeluga;
                s2 = set_trailer_beluga s1 trailer_beluga (-1)
            in (True, s2))"

text \<open>The scan for the first empty beluga trailer; \<open>-1\<close> when there is none.\<close>

fun first_empty_slot :: "int list \<Rightarrow> int \<Rightarrow> int" where
  "first_empty_slot [] i = -1"
| "first_empty_slot (v # vs) i = (if v = -1 then i else first_empty_slot vs (i + 1))"

definition unload_beluga :: "problem_state \<Rightarrow> bool \<times> problem_state" where
  "unload_beluga s =
     (let trailer_beluga = first_empty_slot (trailers_beluga s) 0 in
      if trailer_beluga = -1 \<or> belugas s = [] then (False, s)
      else let b = belugas s ! 0 in
        if current_jigs b = [] then (False, s)
        else let jigToTransfer = last (current_jigs b);
                 modifiedBeluga = b\<lparr>current_jigs := butlast (current_jigs b)\<rparr>;
                 s1 = set_trailer_beluga s trailer_beluga jigToTransfer;
                 s2 = set_beluga s1 0 modifiedBeluga
             in if current_jigs modifiedBeluga = []
                then let s3 = s2\<lparr>belugas_unloaded := belugas_unloaded s2 + 1\<rparr>
                     in if outgoing modifiedBeluga = [] then (True, snd (beluga_complete s3))
                        else (True, s3)
                else (True, s2))"

definition get_from_hangar :: "problem_state \<Rightarrow> int \<Rightarrow> int \<Rightarrow> bool \<times> problem_state" where
  "get_from_hangar s hangar trailer_factory =
     (if \<not> is_valid_index hangar (hangars s) \<or>
         \<not> is_valid_index trailer_factory (trailers_factory s) then (False, s)
      else if hangars s ! nat hangar = -1 \<or> trailers_factory s ! nat trailer_factory \<noteq> -1
      then (False, s)
      else let jig_id = hangars s ! nat hangar in
        if \<not> is_valid_index jig_id (jigs s) then (False, s)
        else if \<not> jig_empty (jigs s ! nat jig_id) then (False, s)
        else (True, set_hangar (set_trailer_factory s trailer_factory jig_id) hangar (-1)))"

text \<open>The scan for the first production line whose head is the jig; \<open>-1\<close> when none.\<close>

fun find_production_line :: "production_line list \<Rightarrow> int \<Rightarrow> int \<Rightarrow> int" where
  "find_production_line [] jig_id i = -1"
| "find_production_line (pl # pls) jig_id i =
     (if scheduled_jigs pl \<noteq> [] \<and> scheduled_jigs pl ! 0 = jig_id then i
      else find_production_line pls jig_id (i + 1))"

definition deliver_to_hangar :: "problem_state \<Rightarrow> int \<Rightarrow> int \<Rightarrow> bool \<times> problem_state" where
  "deliver_to_hangar s hangar trailer_factory =
     (if \<not> is_valid_index hangar (hangars s) \<or>
         \<not> is_valid_index trailer_factory (trailers_factory s) then (False, s)
      else if hangars s ! nat hangar \<noteq> -1 \<or> trailers_factory s ! nat trailer_factory = -1
      then (False, s)
      else let jig_id = trailers_factory s ! nat trailer_factory in
        if \<not> is_valid_index jig_id (jigs s) then (False, s)
        else if jig_empty (jigs s ! nat jig_id) then (False, s)
        else let production_line_idx = find_production_line (production_lines s) jig_id 0 in
          if production_line_idx = -1 then (False, s)
          else let pl = production_lines s ! nat production_line_idx;
                   modifiedLine = pl\<lparr>scheduled_jigs := tl (scheduled_jigs pl)\<rparr>;
                   modifiedJig = (jigs s ! nat jig_id)\<lparr>jig_empty := True\<rparr>;
                   s1 = set_production_line s production_line_idx modifiedLine;
                   s2 = set_hangar s1 hangar jig_id;
                   s3 = set_jig s2 jig_id modifiedJig;
                   s4 = set_trailer_factory s3 trailer_factory (-1)
               in if scheduled_jigs modifiedLine = []
                  then (True, remove_production_line
                                (s4\<lparr>production_lines_finished := production_lines_finished s4 + 1\<rparr>)
                                production_line_idx)
                  else (True, s4))"

definition left_stack_rack :: "problem_state \<Rightarrow> int \<Rightarrow> int \<Rightarrow> (bool \<times> problem_state) option" where
  "left_stack_rack s rack trailer_id =
     (if \<not> is_valid_index rack (racks s) \<or> \<not> is_valid_index trailer_id (trailers_beluga s)
      then Some (False, s)
      else if trailers_beluga s ! nat trailer_id = -1 then Some (False, s)
      else let jig_id = trailers_beluga s ! nat trailer_id in
        if \<not> is_valid_index jig_id (jigs s) then Some (False, s)
        else let sz = jig_size (jigs s ! nat jig_id) in
          case get_free_space (racks s ! nat rack) (jigs s) of
            None \<Rightarrow> None
          | Some free \<Rightarrow>
              if free < sz then Some (False, s)
              else let s1 = set_trailer_beluga s trailer_id (-1);
                       r = racks s1 ! nat rack;
                       rack_copy = r\<lparr>rack_jigs := jig_id # rack_jigs r\<rparr>
                   in Some (True, set_rack s1 rack rack_copy))"

definition right_stack_rack :: "problem_state \<Rightarrow> int \<Rightarrow> int \<Rightarrow> (bool \<times> problem_state) option" where
  "right_stack_rack s rack trailer_id =
     (if \<not> is_valid_index rack (racks s) \<or> \<not> is_valid_index trailer_id (trailers_factory s)
      then Some (False, s)
      else if trailers_factory s ! nat trailer_id = -1 then Some (False, s)
      else let jig_id = trailers_factory s ! nat trailer_id in
        if \<not> is_valid_index jig_id (jigs s) then Some (False, s)
        else let sz = jig_size (jigs s ! nat jig_id) in
          case get_free_space (racks s ! nat rack) (jigs s) of
            None \<Rightarrow> None
          | Some free \<Rightarrow>
              if free < sz then Some (False, s)
              else let r = racks s ! nat rack;
                       modifiedRack = r\<lparr>rack_jigs := rack_jigs r @ [jig_id]\<rparr>;
                       s1 = set_trailer_factory s trailer_id (-1)
                   in Some (True, set_rack s1 rack modifiedRack))"

definition left_unstack_rack :: "problem_state \<Rightarrow> int \<Rightarrow> int \<Rightarrow> bool \<times> problem_state" where
  "left_unstack_rack s rack trailer_id =
     (if \<not> is_valid_index rack (racks s) \<or> \<not> is_valid_index trailer_id (trailers_beluga s)
      then (False, s)
      else if trailers_beluga s ! nat trailer_id \<noteq> -1 \<or> rack_jigs (racks s ! nat rack) = []
      then (False, s)
      else let r = racks s ! nat rack;
               jigToTransfer = hd (rack_jigs r);
               modifiedRack = r\<lparr>rack_jigs := tl (rack_jigs r)\<rparr>;
               s1 = set_trailer_beluga s trailer_id jigToTransfer
           in (True, set_rack s1 rack modifiedRack))"

definition right_unstack_rack :: "problem_state \<Rightarrow> int \<Rightarrow> int \<Rightarrow> bool \<times> problem_state" where
  "right_unstack_rack s rack trailer_id =
     (if \<not> is_valid_index rack (racks s) \<or> \<not> is_valid_index trailer_id (trailers_factory s)
      then (False, s)
      else if trailers_factory s ! nat trailer_id \<noteq> -1 \<or> rack_jigs (racks s ! nat rack) = []
      then (False, s)
      else let r = racks s ! nat rack;
               jigToTransfer = last (rack_jigs r);
               modifiedRack = r\<lparr>rack_jigs := butlast (rack_jigs r)\<rparr>;
               s1 = set_trailer_factory s trailer_id jigToTransfer
           in (True, set_rack s1 rack modifiedRack))"

text \<open>
  \<open>ProblemState::apply_action\<close> dispatches on the first character of the name
  (\<open>action_name[0]\<close> of the empty string is the terminating null character) and then on
  the whole name and the number of parameters.
\<close>

definition first_char :: "string \<Rightarrow> char" where
  "first_char action_name = (case action_name of [] \<Rightarrow> CHR 0x00 | c # _ \<Rightarrow> c)"

definition apply_action ::
  "problem_state \<Rightarrow> string \<Rightarrow> int list \<Rightarrow> (bool \<times> problem_state) option" where
  "apply_action s action_name params =
     (if first_char action_name = CHR ''l'' then
        (if action_name = ''left_stack_rack'' \<and> 2 \<le> length params
         then left_stack_rack s (params ! 0) (params ! 1)
         else if action_name = ''left_unstack_rack'' \<and> 2 \<le> length params
         then Some (left_unstack_rack s (params ! 0) (params ! 1))
         else if action_name = ''load_beluga'' \<and> 1 \<le> length params
         then Some (load_beluga s (params ! 0) (if 1 < length params then params ! 1 else -1))
         else Some (False, s))
      else if first_char action_name = CHR ''r'' then
        (if action_name = ''right_stack_rack'' \<and> 2 \<le> length params
         then right_stack_rack s (params ! 0) (params ! 1)
         else if action_name = ''right_unstack_rack'' \<and> 2 \<le> length params
         then Some (right_unstack_rack s (params ! 0) (params ! 1))
         else Some (False, s))
      else if first_char action_name = CHR ''u'' then
        (if action_name = ''unload_beluga'' then Some (unload_beluga s) else Some (False, s))
      else if first_char action_name = CHR ''g'' then
        (if action_name = ''get_from_hangar'' \<and> 2 \<le> length params
         then Some (get_from_hangar s (params ! 0) (params ! 1))
         else Some (False, s))
      else if first_char action_name = CHR ''d'' then
        (if action_name = ''deliver_to_hangar'' \<and> 2 \<le> length params
         then Some (deliver_to_hangar s (params ! 0) (params ! 1))
         else Some (False, s))
      else Some (False, s))"

text \<open>\<open>check_action_valid\<close> applies the action to a copy and returns the flag.\<close>

definition check_action_valid :: "problem_state \<Rightarrow> string \<Rightarrow> int list \<Rightarrow> bool option" where
  "check_action_valid s action_name params = map_option fst (apply_action s action_name params)"

text \<open>The default constructor: every vector empty, every counter zero.\<close>

definition ProblemState_default :: problem_state where
  "ProblemState_default = ProblemState [] [] [] [] [] [] []"

section \<open>Reward (ProblemState::evaluate)\<close>

text \<open>
  \<open>float\<close> values are modelled as real numbers: every operation is exact, rounding and
  overflow are not modelled. The finished counters are recomputed from the sizes of the
  two sequences; the stored fields \<open>belugas_finished\<close> and
  \<open>production_lines_finished\<close> are not read.
\<close>

definition evaluate :: "problem_state \<Rightarrow> int \<Rightarrow> real \<Rightarrow> real" where
  "evaluate s depth mu =
     (let local_belugas_finished = total_belugas s - int (length (belugas s));
          local_production_lines_finished = total_lines s - int (length (production_lines s));
          local_problem_solved = (belugas s = [] \<and> production_lines s = []);
          score0 = 0;
          score1 = score0 + real_of_int (belugas_unloaded s) * 15;
          score2 = score1 + real_of_int local_belugas_finished * 60;
          score3 = score2 + real_of_int local_production_lines_finished * 100;
          score4 = score3 + (if local_problem_solved then 1000 else 0)
      in score4 - mu * real_of_int depth)"

text \<open>The default argument \<open>mu = 0.05f\<close>.\<close>

definition evaluate_default_mu :: "problem_state \<Rightarrow> int \<Rightarrow> real" where
  "evaluate_default_mu s depth = evaluate s depth (5 / 100)"

section \<open>Enumeration of the legal actions\<close>

text \<open>
  The nested \<open>for\<close> loops of \<open>enumerate_valid_params\<close> visit the index pairs in
  lexicographic order, first parameter outermost.
\<close>

definition index_pairs :: "nat \<Rightarrow> nat \<Rightarrow> int list list" where
  "index_pairs n m = concat (map (\<lambda>i. map (\<lambda>j. [int i, int j]) [0..<m]) [0..<n])"

text \<open>
  One loop body decides for a candidate whether it is pushed (\<open>Some True\<close>), skipped
  (\<open>Some False\<close>) or whether the body reads outside a vector (\<open>None\<close>).
\<close>

fun collect_params :: "(int list \<Rightarrow> bool option) \<Rightarrow> int list list \<Rightarrow> int list list option" where
  "collect_params body [] = Some []"
| "collect_params body (c # cs) =
     (case body c of
        None \<Rightarrow> None
      | Some push \<Rightarrow>
          (case collect_params body cs of
             None \<Rightarrow> None
           | Some params \<Rightarrow> Some (if push then c # params else params)))"

text \<open>The pre-check of the two stacking branches, followed by the full validation.\<close>

definition stack_body :: "problem_state \<Rightarrow> string \<Rightarrow> int list \<Rightarrow> int list \<Rightarrow> bool option" where
  "stack_body s action trailers c =
     (let rack_id = c ! 0; trailer_id = c ! 1 in
      if trailers ! nat trailer_id \<noteq> -1 then
        let jig_id = trailers ! nat trailer_id in
        if 0 \<le> jig_id \<and> jig_id < int (length (jigs s)) then
          let sz = jig_size (jigs s ! nat jig_id) in
          case get_free_space (racks s ! nat rack_id) (jigs s) of
            None \<Rightarrow> None
          | Some free \<Rightarrow> if sz \<le> free then check_action_valid s action c else Some False
        else Some False
      else Some False)"

definition unstack_body :: "problem_state \<Rightarrow> string \<Rightarrow> int list \<Rightarrow> int list \<Rightarrow> bool option" where
  "unstack_body s action trailers c =
     (let rack_id = c ! 0; trailer_id = c ! 1 in
      if trailers ! nat trailer_id = -1 \<and> rack_jigs (racks s ! nat rack_id) \<noteq> []
      then check_action_valid s action c else Some False)"

text \<open>
  The branches for \<open>left_load\<close>, \<open>right_load\<close>, \<open>left_unload\<close> and \<open>right_unload\<close>:
  names that \<open>apply_action\<close> does not know.
\<close>

definition load_body :: "problem_state \<Rightarrow> string \<Rightarrow> int list \<Rightarrow> int list \<Rightarrow> bool option" where
  "load_body s action trailers c =
     (let line_id = c ! 0; trailer_id = c ! 1 in
      if trailers ! nat trailer_id \<noteq> -1 then
        let jig_id = trailers ! nat trailer_id in
        if 0 \<le> jig_id \<and> jig_id < int (length (jigs s)) \<and> jig_empty (jigs s ! nat jig_id) \<and>
           scheduled_jigs (production_lines s ! nat line_id) = []
        then check_action_valid s action c else Some False
      else Some False)"

definition unload_body :: "problem_state \<Rightarrow> string \<Rightarrow> int list \<Rightarrow> int list \<Rightarrow> bool option" where
  "unload_body s action trailers c =
     (let line_id = c ! 0; trailer_id = c ! 1 in
      if trailers ! nat trailer_id = -1 \<and> scheduled_jigs (production_lines s ! nat line_id) \<noteq> []
      then check_action_valid s action c else Some False)"

text \<open>The hangar branches test the preconditions themselves.\<close>

definition deliver_body :: "problem_state \<Rightarrow> int list \<Rightarrow> bool option" where
  "deliver_body s c =
     (let hangar_id = c ! 0; trailer_id = c ! 1 in
      if hangars s ! nat hangar_id = -1 \<and> trailers_factory s ! nat trailer_id \<noteq> -1 then
        let jig_id = trailers_factory s ! nat trailer_id in
        if 0 \<le> jig_id \<and> jig_id < int (length (jigs s)) \<and> \<not> jig_empty (jigs s ! nat jig_id)
        then Some (list_ex (\<lambda>pl. scheduled_jigs pl \<noteq> [] \<and> scheduled_jigs pl ! 0 = jig_id)
                     (production_lines s))
        else Some False
      else Some False)"

definition get_body :: "problem_state \<Rightarrow> int list \<Rightarrow> bool option" where
  "get_body s c =
     (let hangar_id = c ! 0; trailer_id = c ! 1 in
      if hangars s ! nat hangar_id \<noteq> -1 \<and> trailers_factory s ! nat trailer_id = -1 then
        let jig_id = hangars s ! nat hangar_id in
        Some (0 \<le> jig_id \<and> jig_id < int (length (jigs s)) \<and> jig_empty (jigs s ! nat jig_id))
      else Some False)"

text \<open>
  \<open>ProblemState::enumerate_valid_params\<close>. There is no branch for \<open>load_beluga\<close>:
  that name falls through every comparison and the result is the empty vector.
\<close>

definition enumerate_valid_params :: "problem_state \<Rightarrow> string \<Rightarrow> int list list option" where
  "enumerate_valid_params s action =
     (if action = ''left_stack_rack'' then
        collect_params (stack_body s action (trailers_beluga s))
          (index_pairs (length (racks s)) (length (trailers_beluga s)))
      else if action = ''right_stack_rack'' then
        collect_params (stack_body s action (trailers_factory s))
          (index_pairs (length (racks s)) (length (trailers_factory s)))
      else if action = ''left_unstack_rack'' then
        collect_params (unstack_body s action (trailers_beluga s))
          (index_pairs (length (racks s)) (length (trailers_beluga s)))
      else if action = ''right_unstack_rack'' then
        collect_params (unstack_body s action (trailers_factory s))
          (index_pairs (length (racks s)) (length (trailers_factory s)))
      else if action = ''left_load'' then
        collect_params (load_body s action (trailers_beluga s))
          (index_pairs (length (production_lines s)) (length (trailers_beluga s)))
      else if action = ''right_load'' then
        collect_params (load_body s action (trailers_factory s))
          (index_pairs (length (production_lines s)) (length (trailers_factory s)))
      else if action = ''left_unload'' then
        collect_params (unload_body s action (trailers_beluga s))
          (index_pairs (length (production_lines s)) (length (trailers_beluga s)))
      else if action = ''right_unload'' then
        collect_params (unload_body s action (trailers_factory s))
          (index_pairs (length (production_lines s)) (length (trailers_factory s)))
      else if action = ''deliver_to_hangar'' then
        collect_params (deliver_body s)
          (index_pairs (length (hangars s)) (length (trailers_factory s)))
      else if action = ''get_from_hangar'' then
        collect_params (get_body s)
          (index_pairs (length (hangars s)) (length (trailers_factory s)))
      else if action = ''unload_beluga'' then
        (if belugas s \<noteq> [] \<and> current_jigs (belugas s ! 0) \<noteq> [] \<and>
            list_ex (\<lambda>v. v = -1) (trailers_beluga s)
         then Some [[]] else Some [])
      else Some [])"

definition param_actions :: "string list" where
  "param_actions = [''left_stack_rack'', ''right_stack_rack'', ''left_unstack_rack'',
     ''right_unstack_rack'', ''load_beluga'', ''get_from_hangar'', ''deliver_to_hangar'']"

text \<open>The loop of \<open>get_possible_actions\<close> over \<open>param_actions\<close>.\<close>

fun enumerate_actions :: "problem_state \<Rightarrow> string list \<Rightarrow> (string \<times> int list) list option" where
  "enumerate_actions s [] = Some []"
| "enumerate_actions s (action # rest) =
     (case enumerate_valid_params s action of
        None \<Rightarrow> None
      | Some params \<Rightarrow>
          (case enumerate_actions s rest of
             None \<Rightarrow> None
           | Some others \<Rightarrow> Some (map (Pair action) params @ others)))"

definition get_possible_actions :: "problem_state \<Rightarrow> (string \<times> int list) list option" where
  "get_possible_actions s =
     (case check_action_valid s ''unload_beluga'' [] of
        None \<Rightarrow> None
      | Some unload_ok \<Rightarrow>
          (case enumerate_actions s param_actions of
             None \<Rightarrow> None
           | Some others \<Rightarrow>
               Some ((if unload_ok then [(''unload_beluga'', [])] else []) @ others)))"

section \<open>Scenario loader (ProblemState::load_from_json)\<close>

text \<open>
  The input is the decoded JSON document: the jigs in the iteration order of the object
  (type name and empty flag), the flights (incoming jig names, outgoing type names), the
  schedules of the production lines, the racks (size and jig names) and the lengths of
  the three slot arrays. Opening the file and parsing the JSON text are outside the model.
  Every \<open>throw\<close> of the loader is an \<open>Inl\<close>. The value \<open>SignedOverflow\<close> is not an
  exception: it marks the undefined behaviour of \<open>std::stoi(number_part) - 1\<close> in
  \<open>extract_id_from_string\<close> when \<open>std::stoi\<close> returns the least \<open>int\<close>.
\<close>

record scenario =
  sc_jigs :: "(string \<times> bool) list"
  sc_flights :: "(string list \<times> string list) list"
  sc_production_lines :: "string list list"
  sc_racks :: "(int \<times> string list) list"
  sc_trailers_beluga :: nat
  sc_trailers_factory :: nat
  sc_hangars :: nat

datatype load_error =
  UnknownJigType string
  | CannotExtractId string
  | StoiInvalidArgument
  | StoiOutOfRange
  | SignedOverflow

definition get_type_from_string :: "string \<Rightarrow> load_error + jig_type" where
  "get_type_from_string type_str =
     (if type_str = ''typeA'' then Inr \<lparr>name = ''typeA'', size_empty = 4, size_loaded = 4\<rparr>
      else if type_str = ''typeB'' then Inr \<lparr>name = ''typeB'', size_empty = 8, size_loaded = 11\<rparr>
      else if type_str = ''typeC'' then Inr \<lparr>name = ''typeC'', size_empty = 9, size_loaded = 18\<rparr>
      else if type_str = ''typeD'' then Inr \<lparr>name = ''typeD'', size_empty = 18, size_loaded = 25\<rparr>
      else if type_str = ''typeE'' then Inr \<lparr>name = ''typeE'', size_empty = 32, size_loaded = 32\<rparr>
      else Inl (UnknownJigType type_str))"

text \<open>
  \<open>std::stoi\<close>: leading white space is skipped, an optional sign is read, then the
  longest run of decimal digits; no digit is \<open>invalid_argument\<close>, a value outside
  \<open>int\<close> is \<open>out_of_range\<close>. What follows the digits is ignored.
\<close>

definition is_space :: "char \<Rightarrow> bool" where
  "is_space c = (c = CHR '' '' \<or> c = CHR 0x09 \<or> c = CHR 0x0A \<or> c = CHR 0x0B \<or>
                 c = CHR 0x0C \<or> c = CHR 0x0D)"

definition digit_value :: "char \<Rightarrow> int option" where
  "digit_value c =
     (let code = (of_char c :: nat)
      in if 48 \<le> code \<and> code \<le> 57 then Some (int code - 48) else None)"

fun read_digits :: "string \<Rightarrow> int \<Rightarrow> int" where
  "read_digits [] acc = acc"
| "read_digits (c # cs) acc =
     (case digit_value c of None \<Rightarrow> acc | Some d \<Rightarrow> read_digits cs (10 * acc + d))"

definition stoi :: "string \<Rightarrow> load_error + int" where
  "stoi str =
     (let s1 = dropWhile is_space str;
          negative = (s1 \<noteq> [] \<and> hd s1 = CHR ''-'');
          s2 = (if s1 \<noteq> [] \<and> (hd s1 = CHR ''-'' \<or> hd s1 = CHR ''+'') then tl s1 else s1)
      in if s2 = [] \<or> digit_value (hd s2) = None then Inl StoiInvalidArgument
         else let v = (if negative then - read_digits s2 0 else read_digits s2 0)
              in if v < - (2 ^ 31) \<or> 2 ^ 31 - 1 < v then Inl StoiOutOfRange else Inr v)"

definition extract_id_from_string :: "string \<Rightarrow> load_error + int" where
  "extract_id_from_string id_str =
     (if take 3 id_str = ''jig'' then
        (case stoi (drop 3 id_str) of
           Inl e \<Rightarrow> Inl e
         | Inr n \<Rightarrow> if n = - (2 ^ 31) then Inl SignedOverflow else Inr (n - 1))
      else Inl (CannotExtractId id_str))"

text \<open>
  A loop that converts every entry and stops at the first exception (or undefined
  subtraction).
\<close>

fun convert_all :: "('a \<Rightarrow> load_error + 'b) \<Rightarrow> 'a list \<Rightarrow> load_error + 'b list" where
  "convert_all f [] = Inr []"
| "convert_all f (x # xs) =
     (case f x of
        Inl e \<Rightarrow> Inl e
      | Inr y \<Rightarrow> (case convert_all f xs of Inl e \<Rightarrow> Inl e | Inr ys \<Rightarrow> Inr (y # ys)))"

definition load_jig :: "string \<times> bool \<Rightarrow> load_error + jig" where
  "load_jig entry =
     (case get_type_from_string (fst entry) of
        Inl e \<Rightarrow> Inl e
      | Inr t \<Rightarrow> Inr \<lparr>jig_type = t, jig_empty = snd entry\<rparr>)"

definition load_beluga_data :: "string list \<times> string list \<Rightarrow> load_error + beluga" where
  "load_beluga_data beluga_data =
     (case convert_all extract_id_from_string (fst beluga_data) of
        Inl e \<Rightarrow> Inl e
      | Inr incoming \<Rightarrow>
          (case convert_all get_type_from_string (snd beluga_data) of
             Inl e \<Rightarrow> Inl e
           | Inr out \<Rightarrow> Inr \<lparr>current_jigs = incoming, outgoing = out\<rparr>))"

definition load_production_line :: "string list \<Rightarrow> load_error + production_line" where
  "load_production_line schedule_data =
     (case convert_all extract_id_from_string schedule_data of
        Inl e \<Rightarrow> Inl e
      | Inr schedule \<Rightarrow> Inr \<lparr>scheduled_jigs = schedule\<rparr>)"

definition load_rack :: "int \<times> string list \<Rightarrow> load_error + rack" where
  "load_rack rack_data =
     (case convert_all extract_id_from_string (snd rack_data) of
        Inl e \<Rightarrow> Inl e
      | Inr storage \<Rightarrow> Inr \<lparr>rack_size = fst rack_data, rack_jigs = storage\<rparr>)"

definition load_from_json :: "scenario \<Rightarrow> load_error + problem_state" where
  "load_from_json data =
     (case convert_all load_jig (sc_jigs data) of
        Inl e \<Rightarrow> Inl e
      | Inr js \<Rightarrow>
     (case convert_all load_beluga_data (sc_flights data) of
        Inl e \<Rightarrow> Inl e
      | Inr bs \<Rightarrow>
     (case convert_all load_production_line (sc_production_lines data) of
        Inl e \<Rightarrow> Inl e
      | Inr pls \<Rightarrow>
     (case convert_all load_rack (sc_racks data) of
        Inl e \<Rightarrow> Inl e
      | Inr rs \<Rightarrow>
          Inr (ProblemState js bs
                 (replicate (sc_trailers_beluga data) (-1))
                 (replicate (sc_trailers_factory data) (-1))
                 rs pls
                 (replicate (sc_hangars data) (-1)))))))"

section \<open>Search tree nodes (MCTSNode.hpp, MCTSNode.cpp)\<close>

text \<open>
  Nodes live in a heap, a list of node records; a \<open>shared_ptr\<close> or \<open>weak_ptr\<close> to a
  node is its index in the heap, and \<open>nullptr\<close> is \<open>None\<close>. \<open>make_shared\<close> appends
  a record to the heap.
\<close>

record mcts_node =
  state :: problem_state
  parent :: "nat option"
  action :: "string \<times> int list"
  depth :: int
  children :: "nat list"
  visits :: int
  total_reward :: real

type_synonym node_heap = "mcts_node list"

definition MCTSNode ::
  "problem_state \<Rightarrow> nat option \<Rightarrow> string \<times> int list \<Rightarrow> int \<Rightarrow> mcts_node" where
  "MCTSNode st p a d =
     \<lparr>state = st, parent = p, action = a, depth = d, children = [], visits = 0,
      total_reward = 0\<rparr>"

definition add_child :: "node_heap \<Rightarrow> nat \<Rightarrow> nat \<Rightarrow> node_heap" where
  "add_child h n child = h[n := (h ! n)\<lparr>children := children (h ! n) @ [child]\<rparr>]"

text \<open>
  \<open>MCTSNode::expand\<close>: the flag returned by \<open>apply_action\<close> is dropped. The result is
  the heap afterwards and the pointer to the child.
\<close>

definition expand :: "node_heap \<Rightarrow> nat \<Rightarrow> string \<times> int list \<Rightarrow> (node_heap \<times> nat) option" where
  "expand h n candidate =
     (case apply_action (state (h ! n)) (fst candidate) (snd candidate) of
        None \<Rightarrow> None
      | Some r \<Rightarrow>
          let new_state = snd r;
              child_node = length h;
              h1 = h @ [MCTSNode new_state (Some n) candidate (depth (h ! n) + 1)]
          in Some (add_child h1 n child_node, child_node))"

subsection \<open>UCT scores\<close>

text \<open>
  A score is a floating-point value: finite, an infinity or not-a-number. Finite values
  are real numbers and the operations on them are exact (rounding, overflow and signed
  zeros are not modelled); the special values follow IEEE 754.
\<close>

datatype fl = NaN | NInf | Fin real | PInf

text \<open>\<open>std::log\<close> of an \<open>int\<close>.\<close>

definition fl_log :: "int \<Rightarrow> fl" where
  "fl_log v = (if 0 < v then Fin (ln (real_of_int v)) else if v = 0 then NInf else NaN)"

text \<open>Division by a non-zero \<open>int\<close>.\<close>

fun fl_div_int :: "fl \<Rightarrow> int \<Rightarrow> fl" where
  "fl_div_int NaN v = NaN"
| "fl_div_int (Fin x) v = Fin (x / real_of_int v)"
| "fl_div_int PInf v = (if 0 < v then PInf else NInf)"
| "fl_div_int NInf v = (if 0 < v then NInf else PInf)"

fun fl_sqrt :: "fl \<Rightarrow> fl" where
  "fl_sqrt NaN = NaN"
| "fl_sqrt NInf = NaN"
| "fl_sqrt (Fin x) = (if 0 \<le> x then Fin (sqrt x) else NaN)"
| "fl_sqrt PInf = PInf"

text \<open>Multiplication of a finite value with a score.\<close>

fun fl_scale :: "real \<Rightarrow> fl \<Rightarrow> fl" where
  "fl_scale w NaN = NaN"
| "fl_scale w (Fin x) = Fin (w * x)"
| "fl_scale w PInf = (if 0 < w then PInf else if w < 0 then NInf else NaN)"
| "fl_scale w NInf = (if 0 < w then NInf else if w < 0 then PInf else NaN)"

text \<open>Addition of a finite value and a score.\<close>

fun fl_plus :: "real \<Rightarrow> fl \<Rightarrow> fl" where
  "fl_plus a NaN = NaN"
| "fl_plus a (Fin x) = Fin (a + x)"
| "fl_plus a PInf = PInf"
| "fl_plus a NInf = NInf"

text \<open>The comparison \<open>score > best_score\<close>; it is false when either side is not a number.\<close>

fun fl_gt :: "fl \<Rightarrow> fl \<Rightarrow> bool" where
  "fl_gt NaN y = False"
| "fl_gt x NaN = False"
| "fl_gt NInf y = False"
| "fl_gt (Fin x) NInf = True"
| "fl_gt (Fin x) (Fin y) = (y < x)"
| "fl_gt (Fin x) PInf = False"
| "fl_gt PInf NInf = True"
| "fl_gt PInf (Fin y) = True"
| "fl_gt PInf PInf = False"

text \<open>\<open>numeric_limits<float>::lowest()\<close> and \<open>numeric_limits<double>::lowest()\<close>.\<close>

definition float_lowest :: real where
  "float_lowest = - ((2 - 1 / 2 ^ 23) * 2 ^ 127)"

definition double_lowest :: real where
  "double_lowest = - ((2 - 1 / 2 ^ 52) * 2 ^ 1023)"

text \<open>The score of one child in the loop of \<open>best_child\<close>.\<close>

definition uct_score :: "int \<Rightarrow> real \<Rightarrow> mcts_node \<Rightarrow> fl" where
  "uct_score parent_visits exploration_weight child =
     (if visits child = 0 then PInf
      else let exploitation = total_reward child / real_of_int (visits child);
               exploration =
                 fl_scale exploration_weight
                   (fl_sqrt (fl_div_int (fl_log parent_visits) (visits child)))
           in fl_plus exploitation exploration)"

fun best_child_loop ::
  "node_heap \<Rightarrow> int \<Rightarrow> real \<Rightarrow> nat list \<Rightarrow> fl \<Rightarrow> nat option \<Rightarrow> nat option" where
  "best_child_loop h parent_visits w [] best_score best = best"
| "best_child_loop h parent_visits w (child # rest) best_score best =
     (let score = uct_score parent_visits w (h ! child) in
      if fl_gt score best_score
      then best_child_loop h parent_visits w rest score (Some child)
      else best_child_loop h parent_visits w rest best_score best)"

text \<open>
  \<open>MCTSNode::best_child\<close> (MCTSNode.cpp, scores in \<open>float\<close>) and
  \<open>mcts_fast::MCTSNode::bestChild\<close> (mcts_node.cpp, scores in \<open>double\<close>) run the same
  loop and differ in the initial best score only.
\<close>

definition best_child :: "node_heap \<Rightarrow> nat \<Rightarrow> real \<Rightarrow> nat option" where
  "best_child h n exploration_weight =
     (if children (h ! n) = [] then None
      else best_child_loop h (visits (h ! n)) exploration_weight (children (h ! n))
             (Fin float_lowest) None)"

definition bestChild :: "node_heap \<Rightarrow> nat \<Rightarrow> real \<Rightarrow> nat option" where
  "bestChild h n exploration_weight =
     (if children (h ! n) = [] then None
      else best_child_loop h (visits (h ! n)) exploration_weight (children (h ! n))
             (Fin double_lowest) None)"

section \<open>Rollout (MCTS::rollout_single)\<close>

text \<open>
  The generator is the sequence of the values it returns: \<open>rng k\<close> is the value drawn
  for step \<open>k\<close> of the rollout. \<open>search_depth\<close> is the member \<open>MCTS::depth\<close>. The loop
  returns the final snapshot, \<open>current_depth\<close> and \<open>actions_taken\<close>.
\<close>

function rollout_loop ::
  "int \<Rightarrow> (nat \<Rightarrow> nat) \<Rightarrow> int \<Rightarrow> problem_state \<Rightarrow> int \<Rightarrow> int
     \<Rightarrow> (problem_state \<times> int \<times> int) option" where
  "rollout_loop search_depth rng max_rollout_steps st current_depth actions_taken =
     (if \<not> is_terminal st \<and> current_depth < search_depth \<and> actions_taken < max_rollout_steps
      then
        (case get_possible_actions st of
           None \<Rightarrow> None
         | Some possible_actions \<Rightarrow>
             if possible_actions = [] then Some (st, current_depth, actions_taken)
             else
               let action_idx = rng (nat actions_taken) mod length possible_actions;
                   a = possible_actions ! action_idx
               in (case apply_action st (fst a) (snd a) of
                     None \<Rightarrow> None
                   | Some r \<Rightarrow>
                       rollout_loop search_depth rng max_rollout_steps (snd r)
                         (current_depth + 1) (actions_taken + 1)))
      else Some (st, current_depth, actions_taken))"
  by pat_completeness auto
termination
  by (relation "measure (\<lambda>(search_depth, rng, max_rollout_steps, st, current_depth, actions_taken).
        nat (max_rollout_steps - actions_taken))") auto

declare rollout_loop.simps [simp del]

definition rollout_single :: "int \<Rightarrow> mcts_node \<Rightarrow> (nat \<Rightarrow> nat) \<Rightarrow> real option" where
  "rollout_single search_depth node rng =
     (let st = state node;
          current_depth = depth node;
          max_rollout_steps = min 50 (search_depth - current_depth)
      in case rollout_loop search_depth rng max_rollout_steps st current_depth 0 of
           None \<Rightarrow> None
         | Some final \<Rightarrow> Some (evaluate_default_mu (fst final) (fst (snd final))))"

text \<open>
  The rollout in the words of the specification. \<open>rollout_steps rng i n st\<close> is the
  snapshot after \<open>n\<close> steps from \<open>st\<close>, where \<open>rng i\<close> is the first value drawn. A step
  is only taken from a snapshot that is not terminal and has at least one possible
  action, and it applies the entry of \<open>possible_actions()\<close> that the generator selects,
  the one at index \<open>rng() % size\<close>; there is no result when a step cannot be taken.
\<close>

fun rollout_steps :: "(nat \<Rightarrow> nat) \<Rightarrow> nat \<Rightarrow> nat \<Rightarrow> problem_state \<Rightarrow> problem_state option" where
  "rollout_steps rng i 0 st = Some st"
| "rollout_steps rng i (Suc n) st =
     (if is_terminal st then None
      else case get_possible_actions st of
             None \<Rightarrow> None
           | Some acts \<Rightarrow>
               if acts = [] then None
               else let a = acts ! (rng i mod length acts)
                    in (case apply_action st (fst a) (snd a) of
                          None \<Rightarrow> None
                        | Some r \<Rightarrow> rollout_steps rng (Suc i) n (snd r)))"

section \<open>The capacity invariant in the words of the specification\<close>

text \<open>
  The space used in a rack as the specification states it: the sum of the sizes of the
  jigs it contains, each looked up by its id in the jig registry.
\<close>

definition spec_used_space :: "jig list \<Rightarrow> rack \<Rightarrow> int" where
  "spec_used_space all_jigs r = sum_list (map (\<lambda>jig_id. jig_size (all_jigs ! nat jig_id)) (rack_jigs r))"

definition racks_within_capacity :: "problem_state \<Rightarrow> bool" where
  "racks_within_capacity s = list_all (\<lambda>r. spec_used_space (jigs s) r \<le> rack_size r) (racks s)"

text \<open>
  The precondition of \<open>left_stack_rack\<close> as the table of the specification states it:
  the beluga trailer holds a jig, and the free space of the rack, its capacity minus the
  sizes of the jigs it contains, is at least the size of that jig.
\<close>

definition spec_free_space :: "problem_state \<Rightarrow> int \<Rightarrow> int" where
  "spec_free_space s rack_id =
     rack_size (racks s ! nat rack_id) - spec_used_space (jigs s) (racks s ! nat rack_id)"

definition left_stack_rack_precondition :: "problem_state \<Rightarrow> int \<Rightarrow> int \<Rightarrow> bool" where
  "left_stack_rack_precondition s rack_id trailer_id =
     (is_valid_index rack_id (racks s) \<and> is_valid_index trailer_id (trailers_beluga s) \<and>
      (let jig_id = trailers_beluga s ! nat trailer_id
       in jig_id \<noteq> -1 \<and> is_valid_index jig_id (jigs s) \<and>
          jig_size (jigs s ! nat jig_id) \<le> spec_free_space s rack_id))"

section \<open>Concrete scenarios and snapshots\<close>

text \<open>
  Scenario C of the specification: a rack of capacity 5 that holds one loaded jig of
  type B (size 11).
\<close>

definition overfull_scenario :: scenario where
  "overfull_scenario =
     \<lparr>sc_jigs = [(''typeB'', False)], sc_flights = [], sc_production_lines = [],
      sc_racks = [(5, [''jig1''])], sc_trailers_beluga = 1, sc_trailers_factory = 1,
      sc_hangars = 1\<rparr>"

text \<open>
  Three loaded jigs (type A of size 4, two of type E of size 32), one flight that brings
  \<open>jig3\<close>, and one rack of capacity 36 that holds \<open>jig2\<close>.
\<close>

definition stacking_scenario :: scenario where
  "stacking_scenario =
     \<lparr>sc_jigs = [(''typeA'', False), (''typeE'', False), (''typeE'', False)],
      sc_flights = [([''jig3''], [])], sc_production_lines = [],
      sc_racks = [(36, [''jig2''])], sc_trailers_beluga = 1, sc_trailers_factory = 1,
      sc_hangars = 1\<rparr>"

definition typeA :: jig_type where
  "typeA = \<lparr>name = ''typeA'', size_empty = 4, size_loaded = 4\<rparr>"

definition typeE :: jig_type where
  "typeE = \<lparr>name = ''typeE'', size_empty = 32, size_loaded = 32\<rparr>"

definition stacking_jigs :: "jig list" where
  "stacking_jigs = [\<lparr>jig_type = typeA, jig_empty = False\<rparr>,
                    \<lparr>jig_type = typeE, jig_empty = False\<rparr>,
                    \<lparr>jig_type = typeE, jig_empty = False\<rparr>]"

text \<open>The snapshot loaded from \<open>stacking_scenario\<close> and its two successors.\<close>

definition stacking_state0 :: problem_state where
  "stacking_state0 =
     ProblemState stacking_jigs [\<lparr>current_jigs = [2], outgoing = []\<rparr>] [-1] [-1]
       [\<lparr>rack_size = 36, rack_jigs = [1]\<rparr>] [] [-1]"

definition stacking_state1 :: problem_state where
  "stacking_state1 =
     stacking_state0\<lparr>belugas := [], trailers_beluga := [2], belugas_unloaded := 1,
       belugas_finished := 1\<rparr>"

definition stacking_state2 :: problem_state where
  "stacking_state2 =
     stacking_state1\<lparr>trailers_beluga := [-1],
       racks := [\<lparr>rack_size = 36, rack_jigs = [2, 1]\<rparr>]\<rparr>"

text \<open>
  A loaded jig of type E (size 32) and two of type A (size 4): the rack of capacity 10
  holds the jig with id 1 (size 4) and beluga trailer 0 holds the jig with id 2 (size 4).
\<close>

definition refusing_state :: problem_state where
  "refusing_state =
     ProblemState [\<lparr>jig_type = typeE, jig_empty = False\<rparr>,
                   \<lparr>jig_type = typeA, jig_empty = False\<rparr>,
                   \<lparr>jig_type = typeA, jig_empty = False\<rparr>]
       [] [2] [-1] [\<lparr>rack_size = 10, rack_jigs = [1]\<rparr>] [] [-1]"

text \<open>
  A flight with no incoming jig and no outgoing demand, one loaded jig of type A in a
  rack.
\<close>

definition idle_flight_scenario :: scenario where
  "idle_flight_scenario =
     \<lparr>sc_jigs = [(''typeA'', False)], sc_flights = [([], [])], sc_production_lines = [],
      sc_racks = [(10, [''jig1''])], sc_trailers_beluga = 1, sc_trailers_factory = 1,
      sc_hangars = 1\<rparr>"

definition idle_flight_state :: problem_state where
  "idle_flight_state =
     ProblemState [\<lparr>jig_type = typeA, jig_empty = False\<rparr>]
       [\<lparr>current_jigs = [], outgoing = []\<rparr>] [-1] [-1]
       [\<lparr>rack_size = 10, rack_jigs = [0]\<rparr>] [] [-1]"

text \<open>
  Scenario B of the specification: one empty jig of type A on beluga trailer 0 and a
  beluga that demands type A.
\<close>

definition load_state :: problem_state where
  "load_state =
     ProblemState [\<lparr>jig_type = typeA, jig_empty = True\<rparr>]
       [\<lparr>current_jigs = [], outgoing = [typeA]\<rparr>] [0] [] [] [] []"

text \<open>
  The scenarios the loader accepts: every type name is one of the canonical five and
  every jig name decodes.
\<close>

definition known_type :: "string \<Rightarrow> bool" where
  "known_type t = (t \<in> {''typeA'', ''typeB'', ''typeC'', ''typeD'', ''typeE''})"

definition jig_name_ok :: "string \<Rightarrow> bool" where
  "jig_name_ok j = (case extract_id_from_string j of Inl e \<Rightarrow> False | Inr n \<Rightarrow> True)"

definition well_named :: "scenario \<Rightarrow> bool" where
  "well_named data =
     (list_all (\<lambda>e. known_type (fst e)) (sc_jigs data) \<and>
      list_all (\<lambda>f. list_all jig_name_ok (fst f) \<and> list_all known_type (snd f))
        (sc_flights data) \<and>
      list_all (list_all jig_name_ok) (sc_production_lines data) \<and>
      list_all (\<lambda>r. list_all jig_name_ok (snd r)) (sc_racks data))"

text \<open>The snapshot loaded from \<open>overfull_scenario\<close>.\<close>

definition overfull_state :: problem_state where
  "overfull_state =
     ProblemState
       [\<lparr>jig_type = \<lparr>name = ''typeB'', size_empty = 8, size_loaded = 11\<rparr>, jig_empty = False\<rparr>]
       [] [-1] [-1] [\<lparr>rack_size = 5, rack_jigs = [0]\<rparr>] [] [-1]"

text \<open>A beluga with nothing to unload and nothing to load.\<close>

definition idle_beluga :: "beluga \<Rightarrow> bool" where
  "idle_beluga b = (current_jigs b = [] \<and> outgoing b = [])"

definition no_idle_beluga :: "problem_state \<Rightarrow> bool" where
  "no_idle_beluga s = list_all (\<lambda>b. \<not> idle_beluga b) (belugas s)"

text \<open>The snapshot \<open>idle_flight_state\<close> after \<open>left_unstack_rack(0, 0)\<close>.\<close>

definition idle_flight_state1 :: problem_state where
  "idle_flight_state1 =
     idle_flight_state\<lparr>trailers_beluga := [0], racks := [\<lparr>rack_size = 10, rack_jigs = []\<rparr>]\<rparr>"

text \<open>
  A root with two children: the first visited once with reward 1074.95, the second
  never visited.
\<close>

definition uct_heap :: node_heap where
  "uct_heap =
     [(MCTSNode stacking_state0 None ([], []) 0)
        \<lparr>children := [1, 2], visits := 1, total_reward := 21499 / 20\<rparr>,
      (MCTSNode stacking_state1 (Some 0) (''unload_beluga'', []) 1)
        \<lparr>visits := 1, total_reward := 21499 / 20\<rparr>,
      MCTSNode stacking_state0 (Some 0) (''get_from_hangar'', [0, 0]) 1]"

text \<open>A heap that holds a root only.\<close>

definition root_heap :: node_heap where
  "root_heap = [MCTSNode stacking_state0 None ([], []) 0]"

section \<open>The listing of legal actions in the words of the specification\<close>

text \<open>
  The enumeration in the words of the specification: the index pairs in increasing
  order, first parameter outermost, that \<open>check_action_valid\<close> accepts.
\<close>

definition valid_pairs :: "problem_state \<Rightarrow> string \<Rightarrow> nat \<Rightarrow> nat \<Rightarrow> int list list" where
  "valid_pairs s act n m = filter (\<lambda>c. check_action_valid s act c = Some True) (index_pairs n m)"

text \<open>
  \<open>unload_beluga\<close> if legal, followed by the valid pairs of the pair-parameter actions
  in the fixed order.
\<close>

definition expected_actions :: "problem_state \<Rightarrow> (string \<times> int list) list" where
  "expected_actions s =
     (if check_action_valid s ''unload_beluga'' [] = Some True then [(''unload_beluga'', [])] else [])
     @ map (Pair ''left_stack_rack'')
         (valid_pairs s ''left_stack_rack'' (length (racks s)) (length (trailers_beluga s)))
     @ map (Pair ''right_stack_rack'')
         (valid_pairs s ''right_stack_rack'' (length (racks s)) (length (trailers_factory s)))
     @ map (Pair ''left_unstack_rack'')
         (valid_pairs s ''left_unstack_rack'' (length (racks s)) (length (trailers_beluga s)))
     @ map (Pair ''right_unstack_rack'')
         (valid_pairs s ''right_unstack_rack'' (length (racks s)) (length (trailers_factory s)))
     @ map (Pair ''get_from_hangar'')
         (valid_pairs s ''get_from_hangar'' (length (hangars s)) (length (trailers_factory s)))
     @ map (Pair ''deliver_to_hangar'')
         (valid_pairs s ''deliver_to_hangar'' (length (hangars s)) (length (trailers_factory s)))"

text \<open>The number of parameters that \<open>apply_action\<close> reads for an action name.\<close>

definition min_params :: "string \<Rightarrow> nat" where
  "min_params act = (if act = ''unload_beluga'' then 0 else 2)"

text \<open>The six actions with two parameters.\<close>

definition pair_actions :: "string list" where
  "pair_actions = [''left_stack_rack'', ''right_stack_rack'', ''left_unstack_rack'',
     ''right_unstack_rack'', ''get_from_hangar'', ''deliver_to_hangar'']"

text \<open>The index ranges of the two parameters of each pair action.\<close>

definition first_range :: "problem_state \<Rightarrow> string \<Rightarrow> nat" where
  "first_range s act =
     (if act = ''get_from_hangar'' \<or> act = ''deliver_to_hangar'' then length (hangars s)
      else length (racks s))"

definition second_range :: "problem_state \<Rightarrow> string \<Rightarrow> nat" where
  "second_range s act =
     (if act = ''left_stack_rack'' \<or> act = ''left_unstack_rack'' then length (trailers_beluga s)
      else length (trailers_factory s))"

section \<open>Failed actions leave the snapshot alone\<close>

lemma load_beluga_false: "load_beluga s a b = (False, s') \<Longrightarrow> s' = s"
  by (auto simp: load_beluga_def Let_def split: if_splits)

lemma unload_beluga_false: "unload_beluga s = (False, s') \<Longrightarrow> s' = s"
  by (auto simp: unload_beluga_def Let_def split: if_splits)

lemma get_from_hangar_false: "get_from_hangar s a b = (False, s') \<Longrightarrow> s' = s"
  by (auto simp: get_from_hangar_def Let_def split: if_splits)

lemma deliver_to_hangar_false: "deliver_to_hangar s a b = (False, s') \<Longrightarrow> s' = s"
  by (auto simp: deliver_to_hangar_def Let_def split: if_splits)

lemma left_stack_rack_false: "left_stack_rack s a b = Some (False, s') \<Longrightarrow> s' = s"
  by (auto simp: left_stack_rack_def Let_def split: if_splits option.splits)

lemma right_stack_rack_false: "right_stack_rack s a b = Some (False, s') \<Longrightarrow> s' = s"
  by (auto simp: right_stack_rack_def Let_def split: if_splits option.splits)

lemma left_unstack_rack_false: "left_unstack_rack s a b = (False, s') \<Longrightarrow> s' = s"
  by (auto simp: left_unstack_rack_def Let_def split: if_splits)

lemma right_unstack_rack_false: "right_unstack_rack s a b = (False, s') \<Longrightarrow> s' = s"
  by (auto simp: right_unstack_rack_def Let_def split: if_splits)

text \<open>
  Whenever \<open>apply_action\<close> returns \<open>false\<close>, for any action name and any parameter
  list, the snapshot after the call equals the snapshot before it.
\<close>

lemma apply_action_false:
  "apply_action s action_name params = Some (False, s') \<Longrightarrow> s' = s"
  unfolding apply_action_def
  by (auto split: if_splits dest: load_beluga_false unload_beluga_false get_from_hangar_false
        deliver_to_hangar_false left_stack_rack_false right_stack_rack_false
        left_unstack_rack_false right_unstack_rack_false)

section \<open>Unloading a beluga\<close>

lemma first_empty_slot_none: "0 \<le> k \<Longrightarrow> (first_empty_slot vs k = -1) = (-1 \<notin> set vs)"
  by (induction vs arbitrary: k) auto

lemma first_empty_slot_index:
  "0 \<le> k \<Longrightarrow> -1 \<in> set vs \<Longrightarrow>
     \<exists>i<length vs. first_empty_slot vs k = k + int i \<and> vs ! i = -1 \<and> (\<forall>j<i. vs ! j \<noteq> -1)"
proof (induction vs arbitrary: k)
  case Nil
  then show ?case by simp
next
  case (Cons v vs)
  show ?case
  proof (cases "v = -1")
    case True
    then show ?thesis by (intro exI[of _ 0]) simp
  next
    case False
    with Cons.prems have mem: "-1 \<in> set vs" by simp
    from Cons.prems have k1: "0 \<le> k + 1" by simp
    from Cons.IH[OF k1 mem] obtain i where i: "i < length vs"
      "first_empty_slot vs (k + 1) = k + 1 + int i" "vs ! i = -1" "\<forall>j<i. vs ! j \<noteq> -1"
      by blast
    have "\<forall>j<Suc i. (v # vs) ! j \<noteq> -1"
      using False i(4) by (auto simp: nth_Cons split: nat.splits)
    with i False show ?thesis
      by (intro exI[of _ "Suc i"]) simp
  qed
qed

lemma unload_beluga_succeeds_iff:
  "fst (unload_beluga s) =
     (belugas s \<noteq> [] \<and> current_jigs (belugas s ! 0) \<noteq> [] \<and> -1 \<in> set (trailers_beluga s))"
  using first_empty_slot_none[of 0 "trailers_beluga s"]
  by (auto simp: unload_beluga_def Let_def)

lemma unload_beluga_effects:
  assumes ok: "belugas s \<noteq> []" "current_jigs (belugas s ! 0) \<noteq> []"
    "-1 \<in> set (trailers_beluga s)"
  shows "\<exists>i<length (trailers_beluga s).
           trailers_beluga s ! i = -1 \<and> (\<forall>j<i. trailers_beluga s ! j \<noteq> -1) \<and>
           snd (unload_beluga s) =
             (let b = belugas s ! 0;
                  remaining = butlast (current_jigs b);
                  finished = (remaining = [] \<and> outgoing b = [])
              in s\<lparr>trailers_beluga := (trailers_beluga s)[i := last (current_jigs b)],
                    belugas := (if finished then tl (belugas s)
                                else b\<lparr>current_jigs := remaining\<rparr> # tl (belugas s)),
                    belugas_unloaded := belugas_unloaded s + (if remaining = [] then 1 else 0),
                    belugas_finished := belugas_finished s + (if finished then 1 else 0)\<rparr>)"
proof -
  from first_empty_slot_index[of 0 "trailers_beluga s"] ok(3)
  obtain i where i: "i < length (trailers_beluga s)"
      "first_empty_slot (trailers_beluga s) 0 = int i" "trailers_beluga s ! i = -1"
      "\<forall>j<i. trailers_beluga s ! j \<noteq> -1"
    by auto
  obtain b bs where bs: "belugas s = b # bs" using ok(1) by (cases "belugas s") auto
  have "snd (unload_beluga s) =
             (let b = belugas s ! 0;
                  remaining = butlast (current_jigs b);
                  finished = (remaining = [] \<and> outgoing b = [])
              in s\<lparr>trailers_beluga := (trailers_beluga s)[i := last (current_jigs b)],
                    belugas := (if finished then tl (belugas s)
                                else b\<lparr>current_jigs := remaining\<rparr> # tl (belugas s)),
                    belugas_unloaded := belugas_unloaded s + (if remaining = [] then 1 else 0),
                    belugas_finished := belugas_finished s + (if finished then 1 else 0)\<rparr>)"
    using ok i bs
    by (auto simp: unload_beluga_def Let_def set_trailer_beluga_def set_beluga_def
          is_valid_index_def beluga_complete_def)
  with i show ?thesis by blast
qed

text \<open>
  Claim C7. \<open>unload_beluga\<close> succeeds exactly when there is a beluga, the active beluga
  (index 0) still has cargo, and some beluga trailer slot is empty. On success the last
  jig of the cargo goes into the first empty slot (slot \<open>i\<close> is empty and no slot before
  it is), \<open>belugas_unloaded\<close> grows by one exactly when the cargo thereby becomes empty,
  and the active beluga is removed (and \<open>belugas_finished\<close> grows by one) when its
  outgoing demand is empty as well; nothing else changes.
\<close>

theorem unload_beluga_spec:
  "unload_beluga s = (ok, s') \<Longrightarrow>
     (ok \<longleftrightarrow> belugas s \<noteq> [] \<and> current_jigs (belugas s ! 0) \<noteq> [] \<and>
             -1 \<in> set (trailers_beluga s)) \<and>
     (ok \<longrightarrow>
        (\<exists>i<length (trailers_beluga s).
           trailers_beluga s ! i = -1 \<and> (\<forall>j<i. trailers_beluga s ! j \<noteq> -1) \<and>
           s' =
             (let b = belugas s ! 0;
                  remaining = butlast (current_jigs b);
                  finished = (remaining = [] \<and> outgoing b = [])
              in s\<lparr>trailers_beluga := (trailers_beluga s)[i := last (current_jigs b)],
                    belugas := (if finished then tl (belugas s)
                                else b\<lparr>current_jigs := remaining\<rparr> # tl (belugas s)),
                    belugas_unloaded := belugas_unloaded s + (if remaining = [] then 1 else 0),
                    belugas_finished := belugas_finished s + (if finished then 1 else 0)\<rparr>)))"
proof -
  assume h: "unload_beluga s = (ok, s')"
  have iff: "ok \<longleftrightarrow> belugas s \<noteq> [] \<and> current_jigs (belugas s ! 0) \<noteq> [] \<and>
             -1 \<in> set (trailers_beluga s)"
    using unload_beluga_succeeds_iff[of s] h by simp
  show ?thesis
  proof (cases ok)
    case True
    with iff have p: "belugas s \<noteq> []" "current_jigs (belugas s ! 0) \<noteq> []"
      "-1 \<in> set (trailers_beluga s)" by simp_all
    from unload_beluga_effects[OF p] h iff show ?thesis by simp
  next
    case False
    with iff show ?thesis by simp
  qed
qed

theorem unload_beluga_spec_witness:
  "unload_beluga stacking_state0 = (True, stacking_state1) \<and>
   belugas stacking_state0 \<noteq> [] \<and> current_jigs (belugas stacking_state0 ! 0) \<noteq> [] \<and>
   -1 \<in> set (trailers_beluga stacking_state0)"
proof -
  have h: "unload_beluga stacking_state0 = (True, stacking_state1)"
    by (simp add: stacking_state0_def stacking_state1_def ProblemState_def unload_beluga_def
          Let_def set_trailer_beluga_def set_beluga_def is_valid_index_def beluga_complete_def)
  from unload_beluga_spec[OF h]
  have "belugas stacking_state0 \<noteq> [] \<and> current_jigs (belugas stacking_state0 ! 0) \<noteq> [] \<and>
        -1 \<in> set (trailers_beluga stacking_state0)"
    by simp
  with h show ?thesis by simp
qed

section \<open>The reward\<close>

text \<open>
  Claim C8. For every snapshot, depth \<open>d\<close> and \<open>mu\<close>, \<open>evaluate\<close> returns
  15 times \<open>belugas_unloaded\<close>, plus 60 times the number of finished belugas, plus 100
  times the number of finished production lines, plus 1000 when both sequences are
  empty, minus \<open>mu\<close> times \<open>d\<close>; the two finished counts are the initial sizes minus
  the current sizes of the sequences, and \<open>mu\<close> defaults to 0.05. (Arithmetic on
  \<open>float\<close> is read as exact arithmetic.)
\<close>

theorem evaluate_formula:
  "evaluate s d mu =
     15 * real_of_int (belugas_unloaded s)
     + 60 * real_of_int (total_belugas s - int (length (belugas s)))
     + 100 * real_of_int (total_lines s - int (length (production_lines s)))
     + (if belugas s = [] \<and> production_lines s = [] then 1000 else 0)
     - mu * real_of_int d
   \<and> evaluate_default_mu s d = evaluate s d 0.05"
  by (simp add: evaluate_def evaluate_default_mu_def Let_def)

theorem evaluate_formula_witness:
  "evaluate stacking_state1 2 0.05 = 10749 / 10 \<and>
   evaluate_default_mu stacking_state1 2 = 10749 / 10"
proof -
  have "evaluate stacking_state1 2 0.05 = 10749 / 10"
    by (simp add: evaluate_formula stacking_state1_def stacking_state0_def ProblemState_def)
  moreover have "evaluate_default_mu stacking_state1 2 = evaluate stacking_state1 2 0.05"
    using evaluate_formula[of stacking_state1 2 "0.05"] by simp
  ultimately show ?thesis by simp
qed

section \<open>Rollout\<close>

lemma rollout_loop_sound:
  "rollout_loop sd rng m st cd k = Some (st', cd', k') \<Longrightarrow> 0 \<le> k \<Longrightarrow>
     k \<le> k' \<and> k' \<le> max k m \<and> cd' - cd = k' - k \<and>
     rollout_steps rng (nat k) (nat (k' - k)) st = Some st' \<and>
     (is_terminal st' \<or> \<not> cd' < sd \<or> \<not> k' < m \<or> get_possible_actions st' = Some [])"
proof (induction sd rng m st cd k rule: rollout_loop.induct)
  case (1 sd rng m st cd k)
  show ?case
  proof (cases "\<not> is_terminal st \<and> cd < sd \<and> k < m")
    case False
    with "1.prems" show ?thesis
      by (auto simp: rollout_loop.simps[of sd rng m st cd k])
  next
    case run: True
    show ?thesis
    proof (cases "get_possible_actions st")
      case None
      with run "1.prems" show ?thesis by (simp add: rollout_loop.simps[of sd rng m st cd k])
    next
      case (Some acts)
      show ?thesis
      proof (cases "acts = []")
        case True
        with run Some "1.prems" show ?thesis
          by (auto simp: rollout_loop.simps[of sd rng m st cd k])
      next
        case False
        let ?a = "acts ! (rng (nat k) mod length acts)"
        show ?thesis
        proof (cases "apply_action st (fst ?a) (snd ?a)")
          case None
          with run Some False "1.prems" show ?thesis
            by (simp add: rollout_loop.simps[of sd rng m st cd k] Let_def)
        next
          case (Some r)
          with run \<open>get_possible_actions st = Some acts\<close> False "1.prems"
          have rec: "rollout_loop sd rng m (snd r) (cd + 1) (k + 1) = Some (st', cd', k')"
            by (simp add: rollout_loop.simps[of sd rng m st cd k] Let_def)
          have k1: "0 \<le> k + 1" using "1.prems" by simp
          have ih: "k + 1 \<le> k' \<and> k' \<le> max (k + 1) m \<and> cd' - (cd + 1) = k' - (k + 1) \<and>
              rollout_steps rng (nat (k + 1)) (nat (k' - (k + 1))) (snd r) = Some st' \<and>
              (is_terminal st' \<or> \<not> cd' < sd \<or> \<not> k' < m \<or> get_possible_actions st' = Some [])"
            using "1.IH"[OF run \<open>get_possible_actions st = Some acts\<close> False refl refl Some rec k1]
            by simp
          from ih have le: "k + 1 \<le> k'" by simp
          then have n: "nat (k' - k) = Suc (nat (k' - (k + 1)))" by linarith
          have i: "nat (k + 1) = Suc (nat k)" using "1.prems" by linarith
          have "rollout_steps rng (nat k) (nat (k' - k)) st = Some st'"
            unfolding n using ih run Some \<open>get_possible_actions st = Some acts\<close> False i
            by (simp add: Let_def)
          with ih run show ?thesis by auto
        qed
      qed
    qed
  qed
qed

lemma rollout_loop_complete:
  "rollout_steps rng (nat k) n st = Some st' \<Longrightarrow> 0 \<le> k \<Longrightarrow> m - k \<le> sd - cd \<Longrightarrow>
   k + int n \<le> max k m \<Longrightarrow>
   (is_terminal st' \<or> \<not> cd + int n < sd \<or> \<not> k + int n < m \<or> get_possible_actions st' = Some []) \<Longrightarrow>
   rollout_loop sd rng m st cd k = Some (st', cd + int n, k + int n)"
proof (induction n arbitrary: st cd k)
  case 0
  then show ?case
    by (auto simp: rollout_loop.simps[of sd rng m st' cd k])
next
  case (Suc n)
  from Suc.prems(1) have nt: "\<not> is_terminal st" by (auto split: if_splits)
  from Suc.prems(1) nt obtain acts where acts: "get_possible_actions st = Some acts" "acts \<noteq> []"
    by (auto split: option.splits if_splits)
  let ?a = "acts ! (rng (nat k) mod length acts)"
  from Suc.prems(1) nt acts obtain r where r: "apply_action st (fst ?a) (snd ?a) = Some r"
    "rollout_steps rng (Suc (nat k)) n (snd r) = Some st'"
    by (auto simp: Let_def split: option.splits)
  have km: "k < m" using Suc.prems(4) by (simp add: max_def split: if_splits)
  have cs: "cd < sd" using km Suc.prems(3) by simp
  have i: "Suc (nat k) = nat (k + 1)" using Suc.prems(2) by linarith
  have rec: "rollout_loop sd rng m (snd r) (cd + 1) (k + 1) = Some (st', cd + 1 + int n, k + 1 + int n)"
  proof (rule Suc.IH)
    show "rollout_steps rng (nat (k + 1)) n (snd r) = Some st'" using r(2) i by simp
    show "0 \<le> k + 1" using Suc.prems(2) by simp
    show "m - (k + 1) \<le> sd - (cd + 1)" using Suc.prems(3) by simp
    show "k + 1 + int n \<le> max (k + 1) m" using Suc.prems(4) km by simp
    show "is_terminal st' \<or> \<not> cd + 1 + int n < sd \<or> \<not> k + 1 + int n < m \<or>
          get_possible_actions st' = Some []"
      using Suc.prems(5) by (simp add: add.assoc add.commute)
  qed
  show ?case
    using nt cs km acts r(1) rec
    by (simp add: rollout_loop.simps[of sd rng m st cd k] Let_def add.assoc add.commute)
qed

lemmas enum_defs = get_possible_actions_def check_action_valid_def enumerate_valid_params_def
  param_actions_def index_pairs_def stack_body_def unstack_body_def deliver_body_def get_body_def
  apply_action_def first_char_def

lemmas action_defs = unload_beluga_def load_beluga_def get_from_hangar_def deliver_to_hangar_def
  left_stack_rack_def right_stack_rack_def left_unstack_rack_def right_unstack_rack_def
  set_trailer_beluga_def set_trailer_factory_def set_beluga_def set_rack_def set_hangar_def
  set_jig_def set_production_line_def remove_production_line_def beluga_complete_def
  is_valid_index_def get_free_space_def jig_size_def Let_def

lemma possible_actions_stacking0: "get_possible_actions stacking_state0 = Some [(''unload_beluga'', []), (''left_unstack_rack'', [0, 0]), (''right_unstack_rack'', [0, 0])]"
  by (simp add: enum_defs action_defs stacking_state0_def stacking_jigs_def typeA_def typeE_def
        ProblemState_def)

lemma unload_stacking0: "apply_action stacking_state0 ''unload_beluga'' [] = Some (True, stacking_state1)"
  by (simp add: apply_action_def first_char_def action_defs stacking_state0_def
        stacking_state1_def ProblemState_def)

lemma terminal_stacking: "is_terminal stacking_state1" "\<not> is_terminal stacking_state0"
  by (simp_all add: is_terminal_def stacking_state0_def stacking_state1_def ProblemState_def)

lemma rollout_loop_stacking0: "rollout_loop 2 (\<lambda>_. 0) 2 stacking_state0 0 0 = Some (stacking_state1, 1, 1)"
  by (simp add: rollout_loop.simps[of _ _ _ stacking_state0] rollout_loop.simps[of _ _ _ stacking_state1]
       possible_actions_stacking0 unload_stacking0 terminal_stacking)

text \<open>
  Claim C9. A rollout from a node at depth \<open>d0\<close> works on a copy of the node's
  snapshot. It returns a reward exactly when there are a number \<open>k\<close> of steps, at least
  0 and at most \<open>min(50, depth - d0)\<close>, and a snapshot reached from the copy by \<open>k\<close>
  steps, each taken from a non-terminal snapshot with the action the generator selects
  from \<open>possible_actions()\<close>, such that the reached snapshot is terminal, or the depth cap
  or the step cap is reached, or no action is possible; the reward is then \<open>evaluate\<close> of
  that snapshot at depth \<open>d0 + k\<close> with the default \<open>mu\<close>. With \<open>depth = 1\<close> a rollout
  from a node at depth 1 applies no action and returns \<open>evaluate\<close> of the unmodified copy.
  (The probability distribution of the generator is outside the model.)
\<close>

theorem rollout_single_spec:
  "(rollout_single sd node rng = Some reward \<longleftrightarrow>
      (\<exists>st' k. 0 \<le> k \<and> k \<le> max 0 (min 50 (sd - depth node)) \<and>
               rollout_steps rng 0 (nat k) (state node) = Some st' \<and>
               (is_terminal st' \<or> \<not> depth node + k < sd \<or> \<not> k < min 50 (sd - depth node) \<or>
                get_possible_actions st' = Some []) \<and>
               reward = evaluate st' (depth node + k) 0.05))
   \<and> (sd = 1 \<and> depth node = 1 \<longrightarrow>
        rollout_single sd node rng = Some (evaluate (state node) 1 0.05))"
proof (intro conjI impI iffI)
  assume r: "rollout_single sd node rng = Some reward"
  then obtain st' cd' k where
    loop: "rollout_loop sd rng (min 50 (sd - depth node)) (state node) (depth node) 0
             = Some (st', cd', k)"
    and rew: "reward = evaluate_default_mu st' cd'"
    by (auto simp: rollout_single_def Let_def split: option.splits)
  from rollout_loop_sound[OF loop]
  have "0 \<le> k" "k \<le> max 0 (min 50 (sd - depth node))" "cd' = depth node + k"
    "rollout_steps rng 0 (nat k) (state node) = Some st'"
    "is_terminal st' \<or> \<not> cd' < sd \<or> \<not> k < min 50 (sd - depth node) \<or>
       get_possible_actions st' = Some []"
    by auto
  with rew show "\<exists>st' k. 0 \<le> k \<and> k \<le> max 0 (min 50 (sd - depth node)) \<and>
               rollout_steps rng 0 (nat k) (state node) = Some st' \<and>
               (is_terminal st' \<or> \<not> depth node + k < sd \<or> \<not> k < min 50 (sd - depth node) \<or>
                get_possible_actions st' = Some []) \<and>
               reward = evaluate st' (depth node + k) 0.05"
    by (intro exI[of _ st'] exI[of _ k]) (simp add: evaluate_default_mu_def)
next
  assume "\<exists>st' k. 0 \<le> k \<and> k \<le> max 0 (min 50 (sd - depth node)) \<and>
               rollout_steps rng 0 (nat k) (state node) = Some st' \<and>
               (is_terminal st' \<or> \<not> depth node + k < sd \<or> \<not> k < min 50 (sd - depth node) \<or>
                get_possible_actions st' = Some []) \<and>
               reward = evaluate st' (depth node + k) 0.05"
  then obtain st' k where k: "0 \<le> k" "k \<le> max 0 (min 50 (sd - depth node))"
    and steps: "rollout_steps rng 0 (nat k) (state node) = Some st'"
    and stop: "is_terminal st' \<or> \<not> depth node + k < sd \<or> \<not> k < min 50 (sd - depth node) \<or>
                get_possible_actions st' = Some []"
    and rew: "reward = evaluate st' (depth node + k) 0.05"
    by blast
  have "rollout_loop sd rng (min 50 (sd - depth node)) (state node) (depth node) 0
          = Some (st', depth node + int (nat k), 0 + int (nat k))"
    using steps k stop
    by (intro rollout_loop_complete) simp_all
  with k rew show "rollout_single sd node rng = Some reward"
    by (simp add: rollout_single_def Let_def evaluate_default_mu_def)
next
  assume "sd = 1 \<and> depth node = 1"
  then show "rollout_single sd node rng = Some (evaluate (state node) 1 0.05)"
    by (simp add: rollout_single_def rollout_loop.simps[of 1 rng _ "state node" 1 0]
          evaluate_default_mu_def)
qed

theorem rollout_single_spec_witness:
  "rollout_single 2 (MCTSNode stacking_state0 None ([], []) 0) (\<lambda>_. 0) = Some (21499 / 20) \<and>
   (\<exists>st' k. 0 \<le> k \<and> k \<le> 2 \<and> rollout_steps (\<lambda>_. 0) 0 (nat k) stacking_state0 = Some st' \<and>
            21499 / 20 = evaluate st' k 0.05) \<and>
   rollout_single 1 (MCTSNode stacking_state0 (Some 0) (''left_unstack_rack'', [0, 0]) 1) (\<lambda>_. 0)
     = Some (- 1 / 20)"
proof -
  let ?root = "MCTSNode stacking_state0 None ([], []) 0"
  let ?leaf = "MCTSNode stacking_state0 (Some 0) (''left_unstack_rack'', [0, 0]) 1"
  have "rollout_single 2 ?root (\<lambda>_. 0) = Some (evaluate_default_mu stacking_state1 1)"
    by (simp add: rollout_single_def MCTSNode_def rollout_loop_stacking0)
  moreover have "evaluate_default_mu stacking_state1 1 = 21499 / 20"
    by (simp add: evaluate_default_mu_def evaluate_def stacking_state1_def stacking_state0_def
          ProblemState_def)
  ultimately have r: "rollout_single 2 ?root (\<lambda>_. 0) = Some (21499 / 20)"
    by simp
  from rollout_single_spec[of 2 ?root "\<lambda>_. 0" "21499 / 20"] r
  have bound: "\<exists>st' k. 0 \<le> k \<and> k \<le> 2 \<and>
      rollout_steps (\<lambda>_. 0) 0 (nat k) stacking_state0 = Some st' \<and>
      21499 / 20 = evaluate st' k 0.05"
    by (auto simp: MCTSNode_def)
  from rollout_single_spec[of 1 ?leaf "\<lambda>_. 0" 0]
  have "rollout_single 1 ?leaf (\<lambda>_. 0) = Some (evaluate (state ?leaf) 1 0.05)"
    by (simp add: MCTSNode_def)
  then have leaf: "rollout_single 1 ?leaf (\<lambda>_. 0) = Some (- 1 / 20)"
    by (simp add: MCTSNode_def evaluate_def stacking_state0_def ProblemState_def)
  from r bound leaf show ?thesis by simp
qed

section \<open>Expansion\<close>

text \<open>
  Claim C10. For every node \<open>n\<close> of the heap and every pair of an action name and a
  parameter list on which \<open>apply_action\<close> returns, legal or not, \<open>expand\<close> returns a new
  node that it appends to the children of \<open>n\<close>; the child has \<open>n\<close> as parent, depth
  \<open>depth n + 1\<close>, no visits, reward 0, no children and the given pair as its action; its
  snapshot is the one \<open>apply_action\<close> leaves, which for an illegal action is the snapshot
  of \<open>n\<close>. No other node changes.
\<close>

theorem expand_spec:
  "n < length h \<Longrightarrow> apply_action (state (h ! n)) (fst cand) (snd cand) = Some (ok, st') \<Longrightarrow>
     (\<exists>h' c. expand h n cand = Some (h', c) \<and>
        c = length h \<and> length h' = Suc (length h) \<and>
        children (h' ! n) = children (h ! n) @ [c] \<and>
        h' ! n = (h ! n)\<lparr>children := children (h ! n) @ [c]\<rparr> \<and>
        (\<forall>m < length h. m \<noteq> n \<longrightarrow> h' ! m = h ! m) \<and>
        parent (h' ! c) = Some n \<and>
        depth (h' ! c) = depth (h ! n) + 1 \<and>
        visits (h' ! c) = 0 \<and> total_reward (h' ! c) = 0 \<and>
        action (h' ! c) = cand \<and>
        children (h' ! c) = [] \<and>
        state (h' ! c) = st' \<and>
        (\<not> ok \<longrightarrow> state (h' ! c) = state (h ! n)))"
  using apply_action_false[of "state (h ! n)" "fst cand" "snd cand" st']
  by (auto simp: expand_def Let_def add_child_def MCTSNode_def nth_append)


theorem expand_spec_witness:
  "0 < length root_heap \<and>
   apply_action (state (root_heap ! 0)) ''get_from_hangar'' [0, 0] = Some (False, stacking_state0) \<and>
   (\<exists>h'. expand root_heap 0 (''get_from_hangar'', [0, 0]) = Some (h', 1) \<and>
         state (h' ! 1) = stacking_state0 \<and> depth (h' ! 1) = 1 \<and> visits (h' ! 1) = 0 \<and>
         children (h' ! 0) = [1])"
proof -
  have n: "0 < length root_heap" by (simp add: root_heap_def)
  have a: "apply_action (state (root_heap ! 0)) (fst (''get_from_hangar'', [0, 0]))
             (snd (''get_from_hangar'', [0, 0])) = Some (False, stacking_state0)"
    by (simp add: root_heap_def MCTSNode_def apply_action_def first_char_def get_from_hangar_def
          is_valid_index_def stacking_state0_def ProblemState_def)
  from expand_spec[OF n a]
  have "\<exists>h'. expand root_heap 0 (''get_from_hangar'', [0, 0]) = Some (h', 1) \<and>
         state (h' ! 1) = stacking_state0 \<and> depth (h' ! 1) = 1 \<and> visits (h' ! 1) = 0 \<and>
         children (h' ! 0) = [1]"
    by (auto simp: root_heap_def MCTSNode_def)
  with n a show ?thesis by simp
qed

section \<open>Selection of the best child\<close>

lemma uct_score_visited:
  "0 < visits ch \<Longrightarrow> uct_score pv w ch = NaN \<or> (\<exists>x. uct_score pv w ch = Fin x)"
  by (cases "0 < pv"; cases "pv = 0") (auto simp: uct_score_def fl_log_def Let_def)

lemma fl_gt_PInf: "\<not> fl_gt x PInf"
  by (cases x) auto

lemma best_child_loop_PInf: "best_child_loop h pv w cs PInf b = b"
  by (induction cs) (auto simp: Let_def fl_gt_PInf)

lemma best_child_loop_visited:
  "\<forall>c\<in>set pre. 0 < visits (h ! c) \<Longrightarrow>
     \<exists>y b'. best_child_loop h pv w (pre @ rest) (Fin x) b = best_child_loop h pv w rest (Fin y) b'"
proof (induction pre arbitrary: x b)
  case Nil
  then show ?case by auto
next
  case (Cons c pre)
  then have v: "0 < visits (h ! c)" and rest: "\<forall>c\<in>set pre. 0 < visits (h ! c)" by auto
  from uct_score_visited[OF v, of pv w] show ?case
  proof
    assume "uct_score pv w (h ! c) = NaN"
    then show ?thesis using Cons.IH[OF rest, of x b] by (simp add: Let_def)
  next
    assume "\<exists>z. uct_score pv w (h ! c) = Fin z"
    then obtain z where z: "uct_score pv w (h ! c) = Fin z" by blast
    show ?thesis
      using Cons.IH[OF rest, of z "Some c"] Cons.IH[OF rest, of x b] z
      by (cases "x < z") (simp_all add: Let_def)
  qed
qed

lemma best_child_loop_first_unvisited:
  assumes "\<forall>d\<in>set pre. 0 < visits (h ! d)" "visits (h ! c) = 0"
  shows "best_child_loop h pv w (pre @ c # post) (Fin x) b = Some c"
proof -
  from best_child_loop_visited[OF assms(1), of pv w "c # post" x b]
  obtain y b' where "best_child_loop h pv w (pre @ c # post) (Fin x) b
      = best_child_loop h pv w (c # post) (Fin y) b'" by blast
  then show ?thesis using assms(2)
    by (simp add: Let_def uct_score_def best_child_loop_PInf)
qed

lemma first_unvisited_split:
  assumes "\<exists>c\<in>set cs. visits (h ! c) = 0"
  shows "\<exists>pre c post. cs = pre @ c # post \<and> visits (h ! c) = 0 \<and> (\<forall>d\<in>set pre. visits (h ! d) \<noteq> 0)"
  using assms split_list_first_prop[of cs "\<lambda>c. visits (h ! c) = 0"] by blast

text \<open>
  Claim C3, amended. For every node whose children have non-negative visit counts and
  include at least one child with \<open>visits = 0\<close>, \<open>best_child\<close> (and \<open>bestChild\<close>) returns
  an unvisited child, for exploration weight 0 as for any other weight: the first child
  in the order of \<open>children\<close> whose \<open>visits\<close> is 0.
\<close>

theorem best_child_unvisited_first:
  assumes nonneg: "\<forall>c\<in>set (children (h ! n)). 0 \<le> visits (h ! c)"
    and unvisited: "\<exists>c\<in>set (children (h ! n)). visits (h ! c) = 0"
  shows "\<exists>pre c post. children (h ! n) = pre @ c # post \<and> visits (h ! c) = 0 \<and>
           (\<forall>d\<in>set pre. visits (h ! d) \<noteq> 0) \<and>
           best_child h n w = Some c \<and> bestChild h n w = Some c"
proof -
  from first_unvisited_split[OF unvisited] obtain pre c post where
    s: "children (h ! n) = pre @ c # post" "visits (h ! c) = 0" "\<forall>d\<in>set pre. visits (h ! d) \<noteq> 0"
    by blast
  have pos: "\<forall>d\<in>set pre. 0 < visits (h ! d)"
  proof
    fix d assume d: "d \<in> set pre"
    with s(1) have "d \<in> set (children (h ! n))" by simp
    with nonneg have "0 \<le> visits (h ! d)" by blast
    with s(3) d show "0 < visits (h ! d)" by force
  qed
  have "best_child h n w = Some c" "bestChild h n w = Some c"
    using best_child_loop_first_unvisited[OF pos s(2)] s(1)
    by (simp_all add: best_child_def bestChild_def)
  with s show ?thesis by blast
qed


text \<open>
  Claim C3 as stated fails: with exploration weight 0, \<open>best_child\<close> and \<open>bestChild\<close>
  return the unvisited second child although the first child has been visited.
\<close>

theorem best_child_zero_counterexample:
  "0 < visits (uct_heap ! 1) \<and> visits (uct_heap ! 2) = 0 \<and> children (uct_heap ! 0) = [1, 2] \<and>
   best_child uct_heap 0 0 = Some 2 \<and> bestChild uct_heap 0 0 = Some 2"
  by (simp add: uct_heap_def MCTSNode_def best_child_def bestChild_def uct_score_def fl_log_def
        float_lowest_def double_lowest_def Let_def)

theorem best_child_unvisited_first_witness:
  "list_all (\<lambda>c. 0 \<le> visits (uct_heap ! c)) (children (uct_heap ! 0)) \<and>
   list_ex (\<lambda>c. visits (uct_heap ! c) = 0) (children (uct_heap ! 0)) \<and>
   (\<exists>c. best_child uct_heap 0 1 = Some c \<and> bestChild uct_heap 0 1 = Some c \<and>
        visits (uct_heap ! c) = 0)"
proof -
  have a: "\<forall>c\<in>set (children (uct_heap ! 0)). 0 \<le> visits (uct_heap ! c)"
    by (simp add: uct_heap_def MCTSNode_def)
  have b: "\<exists>c\<in>set (children (uct_heap ! 0)). visits (uct_heap ! c) = 0"
    by (simp add: uct_heap_def MCTSNode_def)
  from best_child_unvisited_first[OF a b, of 1]
  have "\<exists>c. best_child uct_heap 0 1 = Some c \<and> bestChild uct_heap 0 1 = Some c \<and>
        visits (uct_heap ! c) = 0"
    by blast
  with a b show ?thesis by (simp add: list_all_iff list_ex_iff)
qed

section \<open>The loader\<close>

lemma convert_all_Inr_iff:
  "(\<exists>ys. convert_all f xs = Inr ys) = list_all (\<lambda>x. \<exists>y. f x = Inr y) xs"
  by (induction xs) (auto split: sum.splits)

lemma convert_all_map:
  "convert_all f xs = Inr ys \<Longrightarrow> ys = map (\<lambda>x. projr (f x)) xs"
  by (induction xs arbitrary: ys) (auto split: sum.splits)

lemma get_type_known: "(\<exists>t. get_type_from_string n = Inr t) = known_type n"
  by (auto simp: get_type_from_string_def known_type_def)

lemma extract_ok: "(\<exists>i. extract_id_from_string j = Inr i) = jig_name_ok j"
  by (auto simp: jig_name_ok_def split: sum.splits)

lemma load_jig_ok: "(\<exists>y. load_jig e = Inr y) = known_type (fst e)"
  using get_type_known[of "fst e"] by (auto simp: load_jig_def split: sum.splits)

lemma load_beluga_data_ok:
  "(\<exists>y. load_beluga_data f = Inr y) = (list_all jig_name_ok (fst f) \<and> list_all known_type (snd f))"
  using convert_all_Inr_iff[of extract_id_from_string "fst f"]
        convert_all_Inr_iff[of get_type_from_string "snd f"]
  by (auto simp: load_beluga_data_def extract_ok get_type_known split: sum.splits)

lemma load_production_line_ok:
  "(\<exists>y. load_production_line l = Inr y) = list_all jig_name_ok l"
  using convert_all_Inr_iff[of extract_id_from_string l]
  by (auto simp: load_production_line_def extract_ok split: sum.splits)

lemma load_rack_ok:
  "(\<exists>y. load_rack r = Inr y) = list_all jig_name_ok (snd r)"
  using convert_all_Inr_iff[of extract_id_from_string "snd r"]
  by (auto simp: load_rack_def extract_ok split: sum.splits)

lemma load_rack_value:
  "load_rack r = Inr y \<Longrightarrow>
     y = \<lparr>rack_size = fst r, rack_jigs = map (\<lambda>j. projr (extract_id_from_string j)) (snd r)\<rparr>"
  by (auto simp: load_rack_def split: sum.splits dest: convert_all_map)

lemma load_succeeds_iff: "(\<exists>s. load_from_json data = Inr s) = well_named data"
  using convert_all_Inr_iff[of load_jig "sc_jigs data"]
        convert_all_Inr_iff[of load_beluga_data "sc_flights data"]
        convert_all_Inr_iff[of load_production_line "sc_production_lines data"]
        convert_all_Inr_iff[of load_rack "sc_racks data"]
  unfolding load_jig_ok load_beluga_data_ok load_production_line_ok load_rack_ok
  by (auto simp: load_from_json_def well_named_def split: sum.splits)

lemma load_racks:
  "load_from_json data = Inr s \<Longrightarrow>
     racks s = map (\<lambda>r. \<lparr>rack_size = fst r,
                          rack_jigs = map (\<lambda>j. projr (extract_id_from_string j)) (snd r)\<rparr>)
                 (sc_racks data)"
proof -
  assume "load_from_json data = Inr s"
  then obtain rs where rs: "convert_all load_rack (sc_racks data) = Inr rs" "racks s = rs"
    by (auto simp: load_from_json_def ProblemState_def split: sum.splits)
  have "\<And>rs. convert_all load_rack xs = Inr rs \<Longrightarrow>
          rs = map (\<lambda>r. \<lparr>rack_size = fst r,
                          rack_jigs = map (\<lambda>j. projr (extract_id_from_string j)) (snd r)\<rparr>) xs" for xs
    by (induction xs) (auto split: sum.splits dest: load_rack_value)
  with rs show ?thesis by blast
qed


text \<open>
  Claim C4 as stated fails: the scenario whose rack of capacity 5 holds a loaded jig of
  size 11 loads without an error.
\<close>

theorem load_overfull_counterexample:
  "load_from_json overfull_scenario = Inr overfull_state \<and>
   \<not> racks_within_capacity overfull_state"
  by (simp add: overfull_scenario_def overfull_state_def ProblemState_def load_from_json_def
        load_jig_def load_rack_def get_type_from_string_def extract_id_from_string_def stoi_def
        is_space_def digit_value_def racks_within_capacity_def spec_used_space_def jig_size_def)

text \<open>
  Claim C4, amended. Loading returns a snapshot exactly when every type name (of a jig
  or of an outgoing demand) is one of the five canonical names and every jig name (of a
  flight, a schedule or a rack) can be decoded; otherwise it returns no snapshot: it
  fails with an error for an unknown type name or a jig name that lacks the prefix or
  that \<open>std::stoi\<close> rejects (and its behaviour is undefined for the jig name whose
  number is the least \<open>int\<close>). When it returns a snapshot it takes every rack over as
  given, its size and its decoded jig list: the contents of a rack are not compared
  with its capacity.
\<close>

theorem load_from_json_spec:
  "((\<exists>s. load_from_json data = Inr s) \<longleftrightarrow> well_named data) \<and>
   (\<forall>s. load_from_json data = Inr s \<longrightarrow>
      racks s = map (\<lambda>r. \<lparr>rack_size = fst r,
                            rack_jigs = map (\<lambda>j. projr (extract_id_from_string j)) (snd r)\<rparr>)
                  (sc_racks data))"
  using load_succeeds_iff[of data] load_racks[of data] by blast

theorem load_from_json_spec_witness:
  "well_named overfull_scenario \<and> (\<exists>s. load_from_json overfull_scenario = Inr s)"
proof -
  have w: "well_named overfull_scenario"
    by (simp add: well_named_def overfull_scenario_def known_type_def jig_name_ok_def
          extract_id_from_string_def stoi_def is_space_def digit_value_def)
  with load_from_json_spec[of overfull_scenario] show ?thesis by simp
qed

section \<open>Belugas with nothing left to do\<close>

lemma get_from_hangar_belugas: "belugas (snd (get_from_hangar s a b)) = belugas s"
  by (simp add: get_from_hangar_def Let_def set_hangar_def set_trailer_factory_def)

lemma deliver_to_hangar_belugas: "belugas (snd (deliver_to_hangar s a b)) = belugas s"
  by (simp add: deliver_to_hangar_def Let_def set_hangar_def set_trailer_factory_def
        set_production_line_def set_jig_def remove_production_line_def)

lemma left_unstack_rack_belugas: "belugas (snd (left_unstack_rack s a b)) = belugas s"
  by (simp add: left_unstack_rack_def Let_def set_rack_def set_trailer_beluga_def)

lemma right_unstack_rack_belugas: "belugas (snd (right_unstack_rack s a b)) = belugas s"
  by (simp add: right_unstack_rack_def Let_def set_rack_def set_trailer_factory_def)

lemma left_stack_rack_belugas: "left_stack_rack s a b = Some r \<Longrightarrow> belugas (snd r) = belugas s"
  by (auto simp: left_stack_rack_def Let_def set_rack_def set_trailer_beluga_def
        split: if_splits option.splits)

lemma right_stack_rack_belugas: "right_stack_rack s a b = Some r \<Longrightarrow> belugas (snd r) = belugas s"
  by (auto simp: right_stack_rack_def Let_def set_rack_def set_trailer_factory_def
        split: if_splits option.splits)

lemma unload_beluga_no_idle: "no_idle_beluga s \<Longrightarrow> no_idle_beluga (snd (unload_beluga s))"
  by (cases "belugas s")
     (auto simp: unload_beluga_def Let_def no_idle_beluga_def idle_beluga_def
        set_trailer_beluga_def set_beluga_def is_valid_index_def beluga_complete_def)

lemma tl_Nil_length: "xs \<noteq> [] \<Longrightarrow> tl xs = [] \<Longrightarrow> length xs = Suc 0"
  by (cases xs) auto

lemma load_beluga_no_idle: "no_idle_beluga s \<Longrightarrow> no_idle_beluga (snd (load_beluga s a b))"
  by (cases "belugas s")
     (auto simp: load_beluga_def Let_def no_idle_beluga_def idle_beluga_def
        set_trailer_beluga_def set_beluga_def is_valid_index_def beluga_complete_def
        dest: tl_Nil_length)

lemma no_idle_same_belugas: "belugas s' = belugas s \<Longrightarrow> no_idle_beluga s \<Longrightarrow> no_idle_beluga s'"
  by (simp add: no_idle_beluga_def)

lemma apply_action_no_idle:
  "no_idle_beluga s \<Longrightarrow> apply_action s n ps = Some r \<Longrightarrow> no_idle_beluga (snd r)"
  unfolding apply_action_def
  by (auto split: if_splits
        intro: unload_beluga_no_idle load_beluga_no_idle
          no_idle_same_belugas[OF get_from_hangar_belugas]
          no_idle_same_belugas[OF deliver_to_hangar_belugas]
          no_idle_same_belugas[OF left_unstack_rack_belugas]
          no_idle_same_belugas[OF right_unstack_rack_belugas]
          no_idle_same_belugas[OF left_stack_rack_belugas]
          no_idle_same_belugas[OF right_stack_rack_belugas])


text \<open>
  Claim C5 as stated fails: the loader produces a snapshot whose beluga at index 0 has
  neither cargo nor demand, and it is still at index 0 after an action that returns
  \<open>false\<close> and after one that returns \<open>true\<close>.
\<close>

theorem idle_beluga_counterexample:
  "load_from_json idle_flight_scenario = Inr idle_flight_state \<and>
   apply_action idle_flight_state ''get_from_hangar'' [0, 0] = Some (False, idle_flight_state) \<and>
   apply_action idle_flight_state ''left_unstack_rack'' [0, 0] = Some (True, idle_flight_state1) \<and>
   belugas idle_flight_state1 = belugas idle_flight_state \<and>
   belugas idle_flight_state \<noteq> [] \<and>
   current_jigs (belugas idle_flight_state ! 0) = [] \<and>
   outgoing (belugas idle_flight_state ! 0) = []"
  by (simp add: idle_flight_scenario_def idle_flight_state_def idle_flight_state1_def typeA_def
        ProblemState_def load_from_json_def load_jig_def load_rack_def load_beluga_data_def
        get_type_from_string_def extract_id_from_string_def stoi_def is_space_def digit_value_def
        apply_action_def first_char_def get_from_hangar_def left_unstack_rack_def
        set_trailer_beluga_def set_rack_def is_valid_index_def Let_def)

text \<open>
  Claim C5, amended. For every snapshot in which no beluga of the sequence has both
  \<open>current_jigs\<close> and \<open>outgoing\<close> empty, and every action invocation (any name, any
  parameters) that returns, no beluga of the sequence afterwards has both empty; in
  particular, if the sequence is non-empty afterwards, the beluga at index 0 has not.
\<close>

theorem no_idle_beluga_preserved:
  "no_idle_beluga s \<Longrightarrow> apply_action s action_name params = Some (ok, s') \<Longrightarrow>
     no_idle_beluga s' \<and> (belugas s' \<noteq> [] \<longrightarrow> \<not> idle_beluga (belugas s' ! 0))"
proof -
  assume a: "no_idle_beluga s" "apply_action s action_name params = Some (ok, s')"
  from apply_action_no_idle[OF a] have n: "no_idle_beluga s'" by simp
  then have "belugas s' \<noteq> [] \<longrightarrow> \<not> idle_beluga (belugas s' ! 0)"
    by (cases "belugas s'") (auto simp: no_idle_beluga_def)
  with n show ?thesis by simp
qed

theorem no_idle_beluga_preserved_witness:
  "no_idle_beluga stacking_state0 \<and>
   apply_action stacking_state0 ''left_unstack_rack'' [0, 0]
     = Some (left_unstack_rack stacking_state0 0 0) \<and>
   no_idle_beluga (snd (left_unstack_rack stacking_state0 0 0)) \<and>
   belugas (snd (left_unstack_rack stacking_state0 0 0)) \<noteq> []"
proof -
  have a: "no_idle_beluga stacking_state0"
    by (simp add: no_idle_beluga_def idle_beluga_def stacking_state0_def ProblemState_def)
  have b: "apply_action stacking_state0 ''left_unstack_rack'' [0, 0]
             = Some (fst (left_unstack_rack stacking_state0 0 0),
                     snd (left_unstack_rack stacking_state0 0 0))"
    by (simp add: apply_action_def first_char_def)
  have c: "belugas (snd (left_unstack_rack stacking_state0 0 0)) \<noteq> []"
    by (simp add: left_unstack_rack_belugas stacking_state0_def ProblemState_def)
  from no_idle_beluga_preserved[OF a b] b c show ?thesis using a by simp
qed

section \<open>The capacity of a rack\<close>

text \<open>
  Claim C2 fails on the code. The snapshot loaded from \<open>stacking_scenario\<close> respects the
  capacity of its rack (32 of 36 used). After \<open>unload_beluga\<close> and
  \<open>left_stack_rack(0, 0)\<close>, which both return \<open>true\<close>, the rack holds two jigs of size
  32: \<open>get_free_space\<close> has looked up the size of jig 0 (size 4) for the jig with id 1.
\<close>

theorem left_stack_rack_exceeds_capacity:
  "load_from_json stacking_scenario = Inr stacking_state0 \<and>
   racks_within_capacity stacking_state0 \<and>
   apply_action stacking_state0 ''unload_beluga'' [] = Some (True, stacking_state1) \<and>
   get_free_space (racks stacking_state1 ! 0) (jigs stacking_state1) = Some 32 \<and>
   rack_size (racks stacking_state1 ! 0) - spec_used_space (jigs stacking_state1) (racks stacking_state1 ! 0) = 4 \<and>
   apply_action stacking_state1 ''left_stack_rack'' [0, 0] = Some (True, stacking_state2) \<and>
   \<not> racks_within_capacity stacking_state2"
  by (simp add: stacking_scenario_def stacking_state0_def stacking_state1_def stacking_state2_def
        stacking_jigs_def typeA_def typeE_def ProblemState_def
        load_from_json_def load_jig_def load_beluga_data_def load_rack_def
        get_type_from_string_def extract_id_from_string_def stoi_def is_space_def digit_value_def
        apply_action_def first_char_def unload_beluga_def left_stack_rack_def Let_def
        set_trailer_beluga_def set_beluga_def set_rack_def is_valid_index_def
        beluga_complete_def get_free_space_def jig_size_def
        racks_within_capacity_def spec_used_space_def)

section \<open>The precondition of stacking\<close>

text \<open>
  Claim C6 fails on the code. In \<open>stacking_state1\<close> the precondition of
  \<open>left_stack_rack(0, 0)\<close> does not hold (free space 4, jig of size 32), yet
  \<open>apply_action\<close> returns \<open>true\<close> and changes the snapshot. In \<open>refusing_state\<close> the
  precondition holds (free space 6, jig of size 4), yet \<open>apply_action\<close> returns
  \<open>false\<close>. Both times \<open>get_free_space\<close> has looked up the size of jig 0 for the jig
  with id 1.
\<close>

theorem left_stack_rack_ignores_precondition:
  "\<not> left_stack_rack_precondition stacking_state1 0 0 \<and>
   apply_action stacking_state1 ''left_stack_rack'' [0, 0] = Some (True, stacking_state2) \<and>
   stacking_state2 \<noteq> stacking_state1 \<and>
   left_stack_rack_precondition refusing_state 0 0 \<and>
   apply_action refusing_state ''left_stack_rack'' [0, 0] = Some (False, refusing_state)"
proof -
  have a: "\<not> left_stack_rack_precondition stacking_state1 0 0"
    by (simp add: left_stack_rack_precondition_def spec_free_space_def spec_used_space_def
          jig_size_def is_valid_index_def stacking_state1_def stacking_state0_def
          stacking_jigs_def typeA_def typeE_def ProblemState_def)
  have b: "apply_action stacking_state1 ''left_stack_rack'' [0, 0] = Some (True, stacking_state2)"
    by (simp add: apply_action_def first_char_def left_stack_rack_def Let_def
          set_trailer_beluga_def set_rack_def is_valid_index_def get_free_space_def jig_size_def
          stacking_state1_def stacking_state2_def stacking_state0_def stacking_jigs_def
          typeA_def typeE_def ProblemState_def)
  have "trailers_beluga stacking_state2 \<noteq> trailers_beluga stacking_state1"
    by (simp add: stacking_state1_def stacking_state2_def)
  then have c: "stacking_state2 \<noteq> stacking_state1" by auto
  have d: "left_stack_rack_precondition refusing_state 0 0"
    by (simp add: left_stack_rack_precondition_def spec_free_space_def spec_used_space_def
          jig_size_def is_valid_index_def refusing_state_def typeA_def typeE_def
          ProblemState_def)
  have e: "apply_action refusing_state ''left_stack_rack'' [0, 0] = Some (False, refusing_state)"
    by (simp add: apply_action_def first_char_def left_stack_rack_def Let_def
          is_valid_index_def get_free_space_def jig_size_def refusing_state_def
          typeA_def typeE_def ProblemState_def)
  from a b c d e show ?thesis by simp
qed

section \<open>The legal actions\<close>

lemma collect_params_Some:
  "collect_params body cs = Some ps \<Longrightarrow>
     ps = filter (\<lambda>c. body c = Some True) cs \<and> (\<forall>c\<in>set cs. body c \<noteq> None)"
  by (induction cs arbitrary: ps) (auto split: option.splits if_splits)

lemma index_pairs_mem:
  "(c \<in> set (index_pairs n m)) = (\<exists>i j. i < n \<and> j < m \<and> c = [int i, int j])"
  by (fastforce simp: index_pairs_def)

lemma index_pairs_mem_int:
  "([a, b] \<in> set (index_pairs n m)) = (0 \<le> a \<and> nat a < n \<and> 0 \<le> b \<and> nat b < m)"
proof
  assume "[a, b] \<in> set (index_pairs n m)"
  then show "0 \<le> a \<and> nat a < n \<and> 0 \<le> b \<and> nat b < m" by (auto simp: index_pairs_mem)
next
  assume h: "0 \<le> a \<and> nat a < n \<and> 0 \<le> b \<and> nat b < m"
  then have "nat a < n \<and> nat b < m \<and> [a, b] = [int (nat a), int (nat b)]" by simp
  then show "[a, b] \<in> set (index_pairs n m)" unfolding index_pairs_mem by blast
qed

lemma stack_body_left:
  "i < length (racks s) \<Longrightarrow> j < length (trailers_beluga s) \<Longrightarrow>
     stack_body s ''left_stack_rack'' (trailers_beluga s) [int i, int j]
       = check_action_valid s ''left_stack_rack'' [int i, int j]"
  by (auto simp: stack_body_def check_action_valid_def apply_action_def first_char_def
        left_stack_rack_def is_valid_index_def Let_def split: option.splits)

lemma stack_body_right:
  "i < length (racks s) \<Longrightarrow> j < length (trailers_factory s) \<Longrightarrow>
     stack_body s ''right_stack_rack'' (trailers_factory s) [int i, int j]
       = check_action_valid s ''right_stack_rack'' [int i, int j]"
  by (auto simp: stack_body_def check_action_valid_def apply_action_def first_char_def
        right_stack_rack_def is_valid_index_def Let_def split: option.splits)

lemma unstack_body_left:
  "i < length (racks s) \<Longrightarrow> j < length (trailers_beluga s) \<Longrightarrow>
     unstack_body s ''left_unstack_rack'' (trailers_beluga s) [int i, int j]
       = check_action_valid s ''left_unstack_rack'' [int i, int j]"
  by (auto simp: unstack_body_def check_action_valid_def apply_action_def first_char_def
        left_unstack_rack_def is_valid_index_def Let_def)

lemma unstack_body_right:
  "i < length (racks s) \<Longrightarrow> j < length (trailers_factory s) \<Longrightarrow>
     unstack_body s ''right_unstack_rack'' (trailers_factory s) [int i, int j]
       = check_action_valid s ''right_unstack_rack'' [int i, int j]"
  by (auto simp: unstack_body_def check_action_valid_def apply_action_def first_char_def
        right_unstack_rack_def is_valid_index_def Let_def)

lemma find_production_line_none:
  "0 \<le> k \<Longrightarrow> (find_production_line pls jig_id k = -1)
      = (\<not> list_ex (\<lambda>pl. scheduled_jigs pl \<noteq> [] \<and> scheduled_jigs pl ! 0 = jig_id) pls)"
  by (induction pls arbitrary: k) auto

lemma get_body_valid:
  "i < length (hangars s) \<Longrightarrow> j < length (trailers_factory s) \<Longrightarrow>
     get_body s [int i, int j] = check_action_valid s ''get_from_hangar'' [int i, int j]"
  by (auto simp: get_body_def check_action_valid_def apply_action_def first_char_def
        get_from_hangar_def is_valid_index_def Let_def)

lemma deliver_body_valid:
  "i < length (hangars s) \<Longrightarrow> j < length (trailers_factory s) \<Longrightarrow>
     deliver_body s [int i, int j] = check_action_valid s ''deliver_to_hangar'' [int i, int j]"
  using find_production_line_none[of 0 "production_lines s" "trailers_factory s ! j"]
  by (auto simp: deliver_body_def check_action_valid_def apply_action_def first_char_def
        deliver_to_hangar_def is_valid_index_def Let_def)

lemma collect_params_valid_pairs:
  assumes c: "collect_params body (index_pairs n m) = Some ps"
    and eq: "\<And>i j. i < n \<Longrightarrow> j < m \<Longrightarrow> body [int i, int j] = check_action_valid s act [int i, int j]"
  shows "ps = valid_pairs s act n m"
proof -
  from collect_params_Some[OF c] have "ps = filter (\<lambda>c. body c = Some True) (index_pairs n m)"
    by simp
  also have "\<dots> = filter (\<lambda>c. check_action_valid s act c = Some True) (index_pairs n m)"
    by (rule filter_cong) (auto simp: index_pairs_mem eq)
  finally show ?thesis by (simp add: valid_pairs_def)
qed

lemma enumerate_left_stack:
  "enumerate_valid_params s ''left_stack_rack'' = Some ps \<Longrightarrow>
     ps = valid_pairs s ''left_stack_rack'' (length (racks s)) (length (trailers_beluga s))"
  by (rule collect_params_valid_pairs[where body = "stack_body s ''left_stack_rack'' (trailers_beluga s)"])
     (simp_all add: enumerate_valid_params_def stack_body_left)

lemma enumerate_right_stack:
  "enumerate_valid_params s ''right_stack_rack'' = Some ps \<Longrightarrow>
     ps = valid_pairs s ''right_stack_rack'' (length (racks s)) (length (trailers_factory s))"
  by (rule collect_params_valid_pairs[where body = "stack_body s ''right_stack_rack'' (trailers_factory s)"])
     (simp_all add: enumerate_valid_params_def stack_body_right)

lemma enumerate_left_unstack:
  "enumerate_valid_params s ''left_unstack_rack'' = Some ps \<Longrightarrow>
     ps = valid_pairs s ''left_unstack_rack'' (length (racks s)) (length (trailers_beluga s))"
  by (rule collect_params_valid_pairs[where body = "unstack_body s ''left_unstack_rack'' (trailers_beluga s)"])
     (simp_all add: enumerate_valid_params_def unstack_body_left)

lemma enumerate_right_unstack:
  "enumerate_valid_params s ''right_unstack_rack'' = Some ps \<Longrightarrow>
     ps = valid_pairs s ''right_unstack_rack'' (length (racks s)) (length (trailers_factory s))"
  by (rule collect_params_valid_pairs[where body = "unstack_body s ''right_unstack_rack'' (trailers_factory s)"])
     (simp_all add: enumerate_valid_params_def unstack_body_right)

lemma enumerate_get:
  "enumerate_valid_params s ''get_from_hangar'' = Some ps \<Longrightarrow>
     ps = valid_pairs s ''get_from_hangar'' (length (hangars s)) (length (trailers_factory s))"
  by (rule collect_params_valid_pairs[where body = "get_body s"])
     (simp_all add: enumerate_valid_params_def get_body_valid)

lemma enumerate_deliver:
  "enumerate_valid_params s ''deliver_to_hangar'' = Some ps \<Longrightarrow>
     ps = valid_pairs s ''deliver_to_hangar'' (length (hangars s)) (length (trailers_factory s))"
  by (rule collect_params_valid_pairs[where body = "deliver_body s"])
     (simp_all add: enumerate_valid_params_def deliver_body_valid)

lemma enumerate_load_beluga: "enumerate_valid_params s ''load_beluga'' = Some []"
  by (simp add: enumerate_valid_params_def)

lemma get_possible_actions_listing:
  assumes "get_possible_actions s = Some acts"
  shows "acts = expected_actions s"
proof -
  from assms obtain u p1 p2 p3 p4 p5 p6 p7 where
    u: "check_action_valid s ''unload_beluga'' [] = Some u"
    and e: "enumerate_valid_params s ''left_stack_rack'' = Some p1"
      "enumerate_valid_params s ''right_stack_rack'' = Some p2"
      "enumerate_valid_params s ''left_unstack_rack'' = Some p3"
      "enumerate_valid_params s ''right_unstack_rack'' = Some p4"
      "enumerate_valid_params s ''load_beluga'' = Some p5"
      "enumerate_valid_params s ''get_from_hangar'' = Some p6"
      "enumerate_valid_params s ''deliver_to_hangar'' = Some p7"
    and acts: "acts = (if u then [(''unload_beluga'', [])] else [])
        @ map (Pair ''left_stack_rack'') p1 @ map (Pair ''right_stack_rack'') p2
        @ map (Pair ''left_unstack_rack'') p3 @ map (Pair ''right_unstack_rack'') p4
        @ map (Pair ''load_beluga'') p5
        @ map (Pair ''get_from_hangar'') p6 @ map (Pair ''deliver_to_hangar'') p7"
    by (auto simp: get_possible_actions_def param_actions_def split: option.splits)
  from e(5) have "p5 = []" by (simp add: enumerate_load_beluga)
  with acts u enumerate_left_stack[OF e(1)] enumerate_right_stack[OF e(2)]
    enumerate_left_unstack[OF e(3)] enumerate_right_unstack[OF e(4)]
    enumerate_get[OF e(6)] enumerate_deliver[OF e(7)]
  show ?thesis by (simp add: expected_actions_def)
qed

lemma take_2: "2 \<le> length ps \<Longrightarrow> take 2 ps = [ps ! 0, ps ! 1]"
  by (cases ps; cases "tl ps") auto

lemma pair_actions_mem:
  "(act \<in> set pair_actions) =
     (act = ''left_stack_rack'' \<or> act = ''right_stack_rack'' \<or> act = ''left_unstack_rack'' \<or>
      act = ''right_unstack_rack'' \<or> act = ''get_from_hangar'' \<or> act = ''deliver_to_hangar'')"
  by (simp add: pair_actions_def)

lemma valid_two_params:
  assumes "act \<in> set pair_actions"
  shows "check_action_valid s act ps =
       (if 2 \<le> length ps then check_action_valid s act [ps ! 0, ps ! 1] else Some False)"
  using assms unfolding pair_actions_mem
  by (elim disjE) (simp_all add: check_action_valid_def apply_action_def first_char_def)

lemma valid_unload_params:
  "check_action_valid s ''unload_beluga'' ps = check_action_valid s ''unload_beluga'' []"
  by (simp add: check_action_valid_def apply_action_def first_char_def)

lemma valid_unknown:
  "act \<notin> set pair_actions \<Longrightarrow> act \<noteq> ''unload_beluga'' \<Longrightarrow> act \<noteq> ''load_beluga'' \<Longrightarrow>
     check_action_valid s act ps = Some False"
  by (auto simp: pair_actions_def check_action_valid_def apply_action_def)

lemma valid_in_range:
  "act \<in> set pair_actions \<Longrightarrow> check_action_valid s act [a, b] = Some True \<Longrightarrow>
     [a, b] \<in> set (index_pairs (first_range s act) (second_range s act))"
  unfolding index_pairs_mem_int
  by (auto simp: pair_actions_def check_action_valid_def apply_action_def first_char_def
        first_range_def second_range_def is_valid_index_def
        left_stack_rack_def right_stack_rack_def left_unstack_rack_def right_unstack_rack_def
        get_from_hangar_def deliver_to_hangar_def Let_def
        split: if_splits option.splits)

lemma mem_map_Pair: "((a, p) \<in> set (map (Pair b) xs)) = (a = b \<and> p \<in> set xs)"
  by auto

lemma expected_actions_mem:
  "((act, ps) \<in> set (expected_actions s)) =
     ((act = ''unload_beluga'' \<and> ps = [] \<and> check_action_valid s ''unload_beluga'' [] = Some True) \<or>
      (act \<in> set pair_actions \<and>
       ps \<in> set (valid_pairs s act (first_range s act) (second_range s act))))"
proof -
  consider "act = ''unload_beluga''" | "act = ''left_stack_rack''" | "act = ''right_stack_rack''"
    | "act = ''left_unstack_rack''" | "act = ''right_unstack_rack''"
    | "act = ''get_from_hangar''" | "act = ''deliver_to_hangar''"
    | "act \<noteq> ''unload_beluga'' \<and> act \<notin> set pair_actions"
    unfolding pair_actions_def by auto
  then show ?thesis
  proof cases
    case 8
    then show ?thesis
      unfolding expected_actions_def set_append Un_iff mem_map_Pair
      by (auto simp: pair_actions_def)
  qed (simp_all only: expected_actions_def set_append Un_iff mem_map_Pair pair_actions_def
         first_range_def second_range_def, simp_all)
qed

lemma valid_pairs_mem:
  "(ps \<in> set (valid_pairs s act n m)) =
     (ps \<in> set (index_pairs n m) \<and> check_action_valid s act ps = Some True)"
  by (simp add: valid_pairs_def)

lemma expected_actions_sound:
  "(act, ps) \<in> set (expected_actions s) \<Longrightarrow> check_action_valid s act ps = Some True"
  by (auto simp: expected_actions_mem valid_pairs_mem)

lemma expected_actions_complete:
  assumes "act \<noteq> ''load_beluga''"
  shows "(check_action_valid s act ps = Some True) =
           (min_params act \<le> length ps \<and> (act, take (min_params act) ps) \<in> set (expected_actions s))"
proof (cases "act = ''unload_beluga''")
  case True
  then show ?thesis
    using valid_unload_params[of s ps]
    by (auto simp: min_params_def expected_actions_mem pair_actions_def)
next
  case nu: False
  show ?thesis
  proof (cases "act \<in> set pair_actions")
    case False
    with nu assms show ?thesis
      by (simp add: valid_unknown expected_actions_mem)
  next
    case True
    show ?thesis
    proof (cases "2 \<le> length ps")
      case False
      with True nu valid_two_params[OF True, of s ps] show ?thesis
        by (simp add: min_params_def)
    next
      case len: True
      have "check_action_valid s act ps = check_action_valid s act [ps ! 0, ps ! 1]"
        using valid_two_params[OF True, of s ps] len by simp
      moreover have "(check_action_valid s act [ps ! 0, ps ! 1] = Some True) =
          ([ps ! 0, ps ! 1] \<in> set (valid_pairs s act (first_range s act) (second_range s act)))"
        using valid_in_range[OF True, of s "ps ! 0" "ps ! 1"] by (auto simp: valid_pairs_mem)
      ultimately show ?thesis
        using True nu len by (simp add: min_params_def expected_actions_mem take_2)
    qed
  qed
qed

lemma expected_actions_no_load:
  "a \<in> set (expected_actions s) \<Longrightarrow> fst a \<noteq> ''load_beluga''"
  using expected_actions_mem[of "fst a" "snd a" s] by (auto simp: pair_actions_mem)

text \<open>
  The action \<open>load_beluga(0)\<close> is legal in Scenario B of the specification, but
  \<open>enumerate_valid_params\<close> returns no parameters for \<open>load_beluga\<close> and
  \<open>get_possible_actions\<close> lists nothing.
\<close>

lemma load_beluga_not_enumerated:
  "check_action_valid load_state ''load_beluga'' [0] = Some True \<and>
   enumerate_valid_params load_state ''load_beluga'' = Some [] \<and>
   get_possible_actions load_state = Some []"
  by (simp add: enum_defs action_defs load_state_def typeA_def ProblemState_def jig_type_eq_def)

text \<open>
  Claim C1 as stated fails: \<open>check_action_valid\<close> accepts \<open>unload_beluga\<close> with any
  parameter list and the pair actions with more than two parameters, and none of these
  pairs is in the list that \<open>get_possible_actions\<close> returns.
\<close>

theorem possible_actions_counterexample:
  "check_action_valid stacking_state0 ''unload_beluga'' [7] = Some True \<and>
   check_action_valid stacking_state0 ''left_unstack_rack'' [0, 0, 5] = Some True \<and>
   get_possible_actions stacking_state0 =
     Some [(''unload_beluga'', []), (''left_unstack_rack'', [0, 0]),
           (''right_unstack_rack'', [0, 0])]"
  by (simp add: possible_actions_stacking0)
     (simp add: check_action_valid_def apply_action_def first_char_def action_defs
        stacking_state0_def ProblemState_def)

text \<open>
  Claim C1, amended. For every snapshot on which the enumeration returns, the list of
  \<open>possible_actions()\<close>, read without its \<open>load_beluga\<close> entries, is \<open>unload_beluga\<close> with
  no parameters (if legal) followed by the valid index pairs of \<open>left_stack_rack\<close>,
  \<open>right_stack_rack\<close>, \<open>left_unstack_rack\<close>, \<open>right_unstack_rack\<close>, \<open>get_from_hangar\<close>,
  \<open>deliver_to_hangar\<close> in this order, each in increasing order with the first parameter
  outermost; every listed pair is valid; and for every action name other than
  \<open>load_beluga\<close>, a pair of the name and a parameter list is valid exactly when the list
  has at least the parameters the action reads (none for \<open>unload_beluga\<close>, two otherwise)
  and the name with exactly these leading parameters is listed.
\<close>

theorem possible_actions_spec:
  "get_possible_actions s = Some acts \<Longrightarrow>
     filter (\<lambda>a. fst a \<noteq> ''load_beluga'') acts = expected_actions s \<and>
     (\<forall>a\<in>set acts. check_action_valid s (fst a) (snd a) = Some True) \<and>
     (\<forall>act ps. act \<noteq> ''load_beluga'' \<longrightarrow>
        (check_action_valid s act ps = Some True) =
          (min_params act \<le> length ps \<and> (act, take (min_params act) ps) \<in> set acts))"
proof -
  assume "get_possible_actions s = Some acts"
  then have acts: "acts = expected_actions s" by (rule get_possible_actions_listing)
  have "filter (\<lambda>a. fst a \<noteq> ''load_beluga'') (expected_actions s) = expected_actions s"
    by (rule filter_True) (simp add: expected_actions_no_load)
  moreover have "\<forall>a\<in>set (expected_actions s). check_action_valid s (fst a) (snd a) = Some True"
    using expected_actions_sound[of _ _ s] by auto
  moreover have "\<forall>act ps. act \<noteq> ''load_beluga'' \<longrightarrow>
        (check_action_valid s act ps = Some True) =
          (min_params act \<le> length ps \<and>
           (act, take (min_params act) ps) \<in> set (expected_actions s))"
    using expected_actions_complete by blast
  ultimately show ?thesis unfolding acts by blast
qed

theorem possible_actions_spec_witness:
  "get_possible_actions stacking_state0 =
     Some [(''unload_beluga'', []), (''left_unstack_rack'', [0, 0]),
           (''right_unstack_rack'', [0, 0])] \<and>
   check_action_valid stacking_state0 ''right_unstack_rack'' [0, 0, 9] = Some True \<and>
   check_action_valid stacking_state0 ''deliver_to_hangar'' [0, 0] \<noteq> Some True"
proof -
  let ?acts = "[(''unload_beluga'', []), (''left_unstack_rack'', [0, 0]),
                (''right_unstack_rack'', [0, 0])] :: (string \<times> int list) list"
  from possible_actions_spec[OF possible_actions_stacking0]
  have complete: "act \<noteq> ''load_beluga'' \<Longrightarrow>
      (check_action_valid stacking_state0 act ps = Some True) =
        (min_params act \<le> length ps \<and> (act, take (min_params act) ps) \<in> set ?acts)"
    for act ps
    by blast
  have a: "check_action_valid stacking_state0 ''right_unstack_rack'' [0, 0, 9] = Some True"
    using complete[of "''right_unstack_rack''" "[0, 0, 9]"] by (simp add: min_params_def)
  have b: "check_action_valid stacking_state0 ''deliver_to_hangar'' [0, 0] \<noteq> Some True"
    using complete[of "''deliver_to_hangar''" "[0, 0]"] by (simp add: min_params_def)
  from a b possible_actions_stacking0 show ?thesis by simp
qed

end
